theory Spec2Isabelle
  imports Complex_Main
begin

section \<open>StatsMonit: the statistics module\<close>

text \<open>
  A shallow embedding of the module that exports \<open>getStats\<close>. The module keeps six
  variables between calls (three history arrays, the cache table, the last network
  counters and the speed history); a function that touches them takes them as a state
  and returns the state updated. A JavaScript number is a \<open>real\<close> (rounding of doubles is not
  modelled), \<open>Date.now()\<close> is an \<open>int\<close> of milliseconds, and a promise is the value it
  settles with: \<open>Inr\<close> the value it resolves to, \<open>Inl\<close> the error it rejects with.
\<close>

datatype error = Error string

subsection \<open>The cache helper\<close>

text \<open>
  \<^verbatim>\<open>
  const _cache = {};
  function cachedCall(key, fn, ttlMs = 5000) {
    const now = Date.now();
    if (_cache[key] && (now - _cache[key].ts) < ttlMs) {
      return Promise.resolve(_cache[key].data);
    }
    return fn().then(data => {
      _cache[key] = { data, ts: now };
      return data;
    });
  }
  \<close>
  The producer \<open>fn\<close> is arbitrary code: it is a function on a world \<open>'w\<close> (everything
  outside the cache table that it may read or change, the clock included) that settles
  with a value or an error. \<open>Date.now()\<close> reads the clock of the world. A producer that
  throws before returning a promise leaves \<open>cachedCall\<close> the same way as a rejected one
  reaches its caller, so both are \<open>Inl\<close>. Every caller in the module passes \<open>ttlMs\<close>.
\<close>

record 'a cache_entry =
  data :: 'a
  ts :: int

type_synonym 'a cache = "string \<rightharpoonup> 'a cache_entry"

type_synonym ('a, 'w) producer = "'w \<Rightarrow> (error + 'a) \<times> 'w"

definition cachedCall ::
  "('w \<Rightarrow> int) \<Rightarrow> string \<Rightarrow> ('a, 'w) producer \<Rightarrow> int \<Rightarrow> 'a cache \<times> 'w
     \<Rightarrow> (error + 'a) \<times> 'a cache \<times> 'w" where
  "cachedCall Date_now key fn ttlMs cw =
     (case cw of (c, w) \<Rightarrow>
        let now = Date_now w;
            miss = (case fn w of
                      (Inl err, w') \<Rightarrow> (Inl err, c, w')
                    | (Inr d, w') \<Rightarrow> (Inr d, c(key \<mapsto> \<lparr>data = d, ts = now\<rparr>), w'))
        in case c key of
             None \<Rightarrow> miss
           | Some e \<Rightarrow> if now - ts e < ttlMs then (Inr (data e), c, w) else miss)"

text \<open>The test \<^verbatim>\<open>_cache[key] && (now - _cache[key].ts) < ttlMs\<close> on its own.\<close>

definition is_fresh :: "'a cache \<Rightarrow> string \<Rightarrow> int \<Rightarrow> int \<Rightarrow> bool" where
  "is_fresh c key now ttlMs =
     (case c key of None \<Rightarrow> False | Some e \<Rightarrow> now - ts e < ttlMs)"

subsection \<open>JavaScript values\<close>

text \<open>
  A property that may be missing (\<open>undefined\<close> or \<open>null\<close>) is an \<open>option\<close>. \<open>a || d\<close>
  takes \<open>d\<close> when \<open>a\<close> is falsy: missing, the empty string, or the number 0.
\<close>

definition str_or :: "string option \<Rightarrow> string \<Rightarrow> string" where
  "str_or a d = (case a of None \<Rightarrow> d | Some v \<Rightarrow> if v = [] then d else v)"

definition num_or :: "real option \<Rightarrow> real \<Rightarrow> real" where
  "num_or a d = (case a of None \<Rightarrow> d | Some v \<Rightarrow> if v = 0 then d else v)"

datatype js_number = Num real | NaN

text \<open>
  \<open>Number.prototype.toFixed(f)\<close> for a finite number below \<open>10^21\<close> in size: the
  integer \<open>n\<close> nearest to \<open>x * 10^f\<close>, the larger one on a tie, written in decimal with
  \<open>f\<close> digits after the point, and a minus sign when \<open>x < 0\<close>.
\<close>

fun digits :: "nat \<Rightarrow> string" where
  "digits n =
     (if n < 10 then [''0123456789'' ! n]
      else digits (n div 10) @ [''0123456789'' ! (n mod 10)])"

declare digits.simps [simp del]

definition toFixed :: "nat \<Rightarrow> real \<Rightarrow> string" where
  "toFixed f x =
     (let n = nat \<lfloor>\<bar>x\<bar> * 10 ^ f + 1 / 2\<rfloor>;
          ds = digits n;
          m = replicate (Suc f - length ds) CHR ''0'' @ ds;
          k = length m - f
      in (if x < 0 then ''-'' else []) @ take k m @ (if f = 0 then [] else ''.'' @ drop k m))"

text \<open>
  \<open>parseFloat\<close> on a decimal literal: a sign, digits, a point, digits. (Leading blanks,
  exponents and \<open>Infinity\<close> are left out: the one string the module parses is a
  \<open>toFixed(2)\<close> result or \<open>"0.00"\<close>.) With no digit at all the result is \<open>NaN\<close>.
\<close>

definition is_digit :: "char \<Rightarrow> bool" where
  "is_digit ch = (48 \<le> (of_char ch :: nat) \<and> (of_char ch :: nat) \<le> 57)"

definition digits_value :: "string \<Rightarrow> nat" where
  "digits_value ds = foldl (\<lambda>acc ch. 10 * acc + (of_char ch - 48)) 0 ds"

definition parseFloat :: "string \<Rightarrow> js_number" where
  "parseFloat str =
     (let (neg, r) = (case str of
                        [] \<Rightarrow> (False, [])
                      | ch # t \<Rightarrow> if ch = CHR ''-'' then (True, t)
                                 else if ch = CHR ''+'' then (False, t) else (False, str));
          ip = takeWhile is_digit r;
          rest = dropWhile is_digit r;
          fp = (case rest of
                  [] \<Rightarrow> []
                | ch # t \<Rightarrow> if ch = CHR ''.'' then takeWhile is_digit t else [])
      in if ip = [] \<and> fp = [] then NaN
         else let v = real (digits_value ip) + real (digits_value fp) / 10 ^ length fp
              in Num (if neg then - v else v))"

subsection \<open>What the operating-system libraries return\<close>

text \<open>
  A call of \<open>osutils\<close> resolves to a result object: \<open>{success: true, data}\<close> or one with
  \<open>success\<close> false. A \<open>DataSize\<close> object is the number its \<open>toBytes()\<close> returns.
\<close>

datatype 'a monitor_result = Success 'a | Failure

record iface_raw =
  iface_interface :: string
  rxBytes :: "real option"
  txBytes :: "real option"

record memory_info =
  mem_total :: real
  mem_used :: real
  mem_usagePercentage :: real

record cpu_info =
  cpu_model :: string
  cpu_cores_count :: real

record disk_usage =
  du_total :: real
  du_used :: real
  du_available :: real
  du_usagePercentage :: real

record process_stats =
  ps_total :: real
  ps_running :: real
  ps_stopped :: "real option"
  ps_sleeping :: "real option"

record temp_data =
  temp_main :: "js_number option"

record fs_raw =
  fs_type :: "string option"
  fs_mount :: "string option"
  fs_size :: "real option"
  fs_used :: "real option"
  fs_use :: "real option"

record disk_raw =
  d_name :: "string option"
  d_vendor :: "string option"
  d_type :: "string option"
  d_size :: "real option"
  d_interfaceType :: "string option"
  d_serialNum :: "string option"
  d_firmwareRevision :: "string option"

record battery_raw =
  hasBattery :: bool
  percent :: "real option"
  bat_isCharging :: bool
  timeRemaining :: "real option"
  bat_voltage :: "real option"
  bat_cycleCount :: "real option"

record memory_usage =
  mu_rss :: real
  mu_heapTotal :: real
  mu_heapUsed :: real
  mu_external :: real
  mu_arrayBuffers :: "real option"

subsection \<open>What the module returns and keeps\<close>

record disk_stats =
  ds_path :: string
  ds_total :: string
  ds_used :: string
  ds_available :: string
  ds_usedPercent :: string

record network_interface =
  ni_interface :: string
  inputBytes :: string
  outputBytes :: string
  totalBytes :: string
  rawInputBytes :: real
  rawOutputBytes :: real

record heap_stats =
  rss :: string
  heapTotal :: string
  heapUsed :: string
  external :: string
  arrayBuffers :: string
  rawHeapUsed :: real
  rawHeapTotal :: real
  heapUsedPercent :: string

record process_counts =
  pc_all :: real
  pc_running :: real
  pc_blocked :: real
  pc_sleeping :: real

record file_system =
  fsi_type :: string
  fsi_mount :: string
  fsi_size :: string
  fsi_used :: string
  fsi_available :: string
  fsi_usedPercent :: string

record disk_entry =
  dl_name :: string
  dl_vendor :: string
  dl_type :: string
  dl_size :: string
  dl_interfaceType :: string
  dl_serialNum :: string
  dl_firmwareRevision :: string

record battery_info =
  level :: real
  isCharging :: bool
  timeLeft :: real
  voltage :: real
  cycleCount :: real

record speed_info =
  download :: string
  upload :: string
  downloadRaw :: real
  uploadRaw :: real

record system_time_info =
  st_time :: string
  st_date :: string
  st_timezone :: string
  st_timestamp :: string

text \<open>The samples of the three timelines and of the speed history.\<close>

record cpu_sample =
  cs_timestamp :: string
  cs_usage :: real

record memory_sample =
  ms_timestamp :: string
  ms_usage :: js_number
  ms_used :: real
  ms_total :: real

record network_sample =
  ns_timestamp :: string
  ns_input :: real
  ns_output :: real

record speed_sample =
  ss_download :: real
  ss_upload :: real
  ss_timestamp :: int

record counters =
  rx :: real
  tx :: real

text \<open>
  The cache table holds, under its three keys, what \<open>si.fsSize()\<close> and
  \<open>si.diskLayout()\<close> resolved to (an array, or nothing) and what \<open>getBatteryStatus\<close>
  resolved to (a battery record or \<open>null\<close>).
\<close>

datatype cache_data =
    FsSizeData "fs_raw list option"
  | DiskLayoutData "disk_raw list option"
  | BatteryData "battery_info option"

record state =
  cpuHistory :: "cpu_sample list"
  memoryHistory :: "memory_sample list"
  networkHistory :: "network_sample list"
  cache :: "cache_data cache"
  lastNetworkStats :: "counters option"
  networkSpeedHistory :: "speed_sample list"

definition initial :: state where
  "initial = \<lparr>cpuHistory = [], memoryHistory = [], networkHistory = [], cache = Map.empty,
     lastNetworkStats = None, networkSpeedHistory = []\<rparr>"

subsection \<open>Bounded histories\<close>

text \<open>
  \<^verbatim>\<open>
  const historyLimit = 20;
  networkHistory.push({ timestamp, input: totalInput, output: totalOutput });
  if (networkHistory.length > historyLimit) networkHistory.shift();
  \<close>
  The same two statements keep \<open>cpuHistory\<close> and \<open>memoryHistory\<close> (limit
  \<open>historyLimit\<close>) and \<open>networkSpeedHistory\<close> (limit 5).
\<close>

definition historyLimit :: nat where
  "historyLimit = 20"

definition push_shift :: "nat \<Rightarrow> 'a list \<Rightarrow> 'a \<Rightarrow> 'a list" where
  "push_shift limit xs x =
     (let pushed = xs @ [x] in if length pushed > limit then tl pushed else pushed)"

subsection \<open>Network speed\<close>

text \<open>
  \<^verbatim>\<open>
  async function getNetworkSpeed() {
    try {
      const result = await osutils.network.statsAsync();
      if (!result.success || result.data.length === 0) {
        return { download: '0 KB/s', upload: '0 KB/s', downloadRaw: 0, uploadRaw: 0 };
      }
      let totalRxBytes = 0;
      let totalTxBytes = 0;
      result.data.forEach(iface => {
        totalRxBytes += iface.rxBytes ? iface.rxBytes.toBytes() : 0;
        totalTxBytes += iface.txBytes ? iface.txBytes.toBytes() : 0;
      });
      if (lastNetworkStats) {
        const timeDiff = 1;
        const downloadSpeed = (totalRxBytes - lastNetworkStats.rx) / timeDiff;
        const uploadSpeed = (totalTxBytes - lastNetworkStats.tx) / timeDiff;
        networkSpeedHistory.push({
          download: Math.max(0, downloadSpeed),
          upload: Math.max(0, uploadSpeed),
          timestamp: Date.now()
        });
        if (networkSpeedHistory.length > 5) networkSpeedHistory.shift();
        const avgDownload = networkSpeedHistory.reduce((sum, item) => sum + item.download, 0) / networkSpeedHistory.length;
        const avgUpload = networkSpeedHistory.reduce((sum, item) => sum + item.upload, 0) / networkSpeedHistory.length;
        lastNetworkStats = { rx: totalRxBytes, tx: totalTxBytes };
        return {
          download: `${formatBytes(avgDownload)}/s`,
          upload: `${formatBytes(avgUpload)}/s`,
          downloadRaw: avgDownload,
          uploadRaw: avgUpload
        };
      } else {
        lastNetworkStats = { rx: totalRxBytes, tx: totalTxBytes };
        return { download: '0 KB/s', upload: '0 KB/s', downloadRaw: 0, uploadRaw: 0 };
      }
    } catch (err) {
      console.error("Error getting network speed:", err);
      return { download: '0 KB/s', upload: '0 KB/s', downloadRaw: 0, uploadRaw: 0 };
    }
  }
  \<close>
  \<open>formatBytes\<close> comes from a file of helpers that is not part of this development; it
  is a parameter. The arguments \<open>statsAsync\<close> and \<open>now\<close> are what the call of
  \<open>osutils.network.statsAsync()\<close> settled with and what \<open>Date.now()\<close> returned.
\<close>

definition bytes_or_0 :: "real option \<Rightarrow> real" where
  "bytes_or_0 b = (case b of None \<Rightarrow> 0 | Some v \<Rightarrow> v)"

text \<open>The two sums that the \<open>forEach\<close> loop accumulates.\<close>

definition sum_rx :: "iface_raw list \<Rightarrow> real" where
  "sum_rx ifaces = foldl (\<lambda>acc iface. acc + bytes_or_0 (rxBytes iface)) 0 ifaces"

definition sum_tx :: "iface_raw list \<Rightarrow> real" where
  "sum_tx ifaces = foldl (\<lambda>acc iface. acc + bytes_or_0 (txBytes iface)) 0 ifaces"

definition zero_speed :: speed_info where
  "zero_speed = \<lparr>download = ''0 KB/s'', upload = ''0 KB/s'', downloadRaw = 0, uploadRaw = 0\<rparr>"

definition getNetworkSpeed ::
  "(real \<Rightarrow> string) \<Rightarrow> error + iface_raw list monitor_result \<Rightarrow> int \<Rightarrow> state
     \<Rightarrow> speed_info \<times> state" where
  "getNetworkSpeed formatBytes statsAsync now s =
     (case statsAsync of
        Inl err \<Rightarrow> (zero_speed, s)
      | Inr Failure \<Rightarrow> (zero_speed, s)
      | Inr (Success ifaces) \<Rightarrow>
          if length ifaces = 0 then (zero_speed, s)
          else
            let totalRxBytes = sum_rx ifaces;
                totalTxBytes = sum_tx ifaces
            in case lastNetworkStats s of
                 Some lastStats \<Rightarrow>
                   let timeDiff = 1;
                       downloadSpeed = (totalRxBytes - rx lastStats) / timeDiff;
                       uploadSpeed = (totalTxBytes - tx lastStats) / timeDiff;
                       history = push_shift 5 (networkSpeedHistory s)
                         \<lparr>ss_download = max 0 downloadSpeed, ss_upload = max 0 uploadSpeed,
                          ss_timestamp = now\<rparr>;
                       avgDownload =
                         foldl (\<lambda>sum item. sum + ss_download item) 0 history / real (length history);
                       avgUpload =
                         foldl (\<lambda>sum item. sum + ss_upload item) 0 history / real (length history)
                   in (\<lparr>download = formatBytes avgDownload @ ''/s'',
                        upload = formatBytes avgUpload @ ''/s'',
                        downloadRaw = avgDownload, uploadRaw = avgUpload\<rparr>,
                       s\<lparr>networkSpeedHistory := history,
                         lastNetworkStats := Some \<lparr>rx = totalRxBytes, tx = totalTxBytes\<rparr>\<rparr>)
               | None \<Rightarrow>
                   (zero_speed,
                    s\<lparr>lastNetworkStats := Some \<lparr>rx = totalRxBytes, tx = totalTxBytes\<rparr>\<rparr>))"

subsection \<open>The other adapters\<close>

text \<open>
  Each adapter takes what its external call settled with. \<open>getDiskStats\<close>,
  \<open>getTemperatureInfo\<close>, \<open>getFileSystemInfo\<close>, \<open>getDiskLayout\<close> and \<open>getBatteryStatus\<close>
  wrap their body in \<open>try\<close> and return their default from \<open>catch\<close>; \<open>getNetworkStats\<close>
  and \<open>getProcessCount\<close> have no \<open>try\<close>, so a rejection of the call they await is
  their own rejection.
  \<^verbatim>\<open>
  async function getDiskStats(mountPath = "/") {
    try {
      const result = await osutils.disk.usageByMountPoint(mountPath);
      if (result.success && result.data) {
        const { total, used, available, usagePercentage } = result.data;
        return {
          path: mountPath,
          total: formatBytes(total.toBytes()),
          used: formatBytes(used.toBytes()),
          available: formatBytes(available.toBytes()),
          usedPercent: `${usagePercentage.toFixed(2)}%`,
        };
      }
      return null;
    } catch (err) { console.error(...); return null; }
  }
  \<close>
\<close>

definition getDiskStats ::
  "(real \<Rightarrow> string) \<Rightarrow> string \<Rightarrow> error + disk_usage option monitor_result
     \<Rightarrow> disk_stats option" where
  "getDiskStats formatBytes mountPath usageByMountPoint =
     (case usageByMountPoint of
        Inl err \<Rightarrow> None
      | Inr Failure \<Rightarrow> None
      | Inr (Success None) \<Rightarrow> None
      | Inr (Success (Some d)) \<Rightarrow>
          Some \<lparr>ds_path = mountPath,
                ds_total = formatBytes (du_total d),
                ds_used = formatBytes (du_used d),
                ds_available = formatBytes (du_available d),
                ds_usedPercent = toFixed 2 (du_usagePercentage d) @ ''%''\<rparr>)"

text \<open>
  \<^verbatim>\<open>
  async function getNetworkStats() {
    const result = await osutils.network.statsAsync();
    if (!result.success) return [];
    let totalInput = 0;
    let totalOutput = 0;
    const interfaces = result.data.map((iface) => {
      const input = iface.rxBytes ? iface.rxBytes.toBytes() : 0;
      const output = iface.txBytes ? iface.txBytes.toBytes() : 0;
      totalInput += input;
      totalOutput += output;
      return { interface: iface.interface, inputBytes: formatBytes(input),
        outputBytes: formatBytes(output), totalBytes: formatBytes(input + output),
        rawInputBytes: input, rawOutputBytes: output };
    });
    const timestamp = new Date().toISOString();
    networkHistory.push({ timestamp, input: totalInput, output: totalOutput });
    if (networkHistory.length > historyLimit) networkHistory.shift();
    return interfaces;
  }
  \<close>
  \<open>timestamp\<close> is what \<open>new Date().toISOString()\<close> returns on the line that reads it.
\<close>

definition getNetworkStats ::
  "(real \<Rightarrow> string) \<Rightarrow> error + iface_raw list monitor_result \<Rightarrow> string \<Rightarrow> state
     \<Rightarrow> (error + network_interface list) \<times> state" where
  "getNetworkStats formatBytes statsAsync timestamp s =
     (case statsAsync of
        Inl err \<Rightarrow> (Inl err, s)
      | Inr Failure \<Rightarrow> (Inr [], s)
      | Inr (Success ifaces) \<Rightarrow>
          let totalInput = sum_rx ifaces;
              totalOutput = sum_tx ifaces;
              interfaces =
                map (\<lambda>iface.
                       let input = bytes_or_0 (rxBytes iface);
                           output = bytes_or_0 (txBytes iface)
                       in \<lparr>ni_interface = iface_interface iface,
                           inputBytes = formatBytes input,
                           outputBytes = formatBytes output,
                           totalBytes = formatBytes (input + output),
                           rawInputBytes = input,
                           rawOutputBytes = output\<rparr>) ifaces
          in (Inr interfaces,
              s\<lparr>networkHistory := push_shift historyLimit (networkHistory s)
                   \<lparr>ns_timestamp = timestamp, ns_input = totalInput, ns_output = totalOutput\<rparr>\<rparr>))"

text \<open>
  \<^verbatim>\<open>
  async function getTemperatureInfo() {
    try {
      const tempData = await si.cpuTemperature();
      if (tempData && typeof tempData.main === 'number' && !isNaN(tempData.main)) {
        return `${tempData.main.toFixed(1)}\<degree>C`;
      } else { return null; }
    } catch (err) { console.error(...); return null; }
  }
  \<close>
  The degree sign is written here as its two bytes in UTF-8.
\<close>

definition degree_C :: string where
  "degree_C = [char_of (0xC2 :: nat), char_of (0xB0 :: nat), CHR ''C'']"

definition getTemperatureInfo :: "error + temp_data option \<Rightarrow> string option" where
  "getTemperatureInfo cpuTemperature =
     (case cpuTemperature of
        Inl err \<Rightarrow> None
      | Inr None \<Rightarrow> None
      | Inr (Some tempData) \<Rightarrow>
          (case temp_main tempData of
             Some (Num v) \<Rightarrow> Some (toFixed 1 v @ degree_C)
           | Some NaN \<Rightarrow> None
           | None \<Rightarrow> None))"

text \<open>
  \<^verbatim>\<open>
  async function getHeapStats() {
    const memoryUsage = process.memoryUsage();
    return {
      rss: formatBytes(memoryUsage.rss),
      heapTotal: formatBytes(memoryUsage.heapTotal),
      heapUsed: formatBytes(memoryUsage.heapUsed),
      external: formatBytes(memoryUsage.external),
      arrayBuffers: formatBytes(memoryUsage.arrayBuffers || 0),
      rawHeapUsed: memoryUsage.heapUsed,
      rawHeapTotal: memoryUsage.heapTotal,
      heapUsedPercent: ((memoryUsage.heapUsed / memoryUsage.heapTotal) * 100).toFixed(2)
    };
  }
  \<close>
  A division by 0 gives \<open>NaN\<close> or an infinity in JavaScript, and \<open>toFixed\<close> prints its name.
\<close>

definition percent_toFixed2 :: "real \<Rightarrow> real \<Rightarrow> string" where
  "percent_toFixed2 a b =
     (if b = 0 then (if a = 0 then ''NaN'' else if 0 < a then ''Infinity'' else ''-Infinity'')
      else toFixed 2 (a / b * 100))"

definition getHeapStats :: "(real \<Rightarrow> string) \<Rightarrow> memory_usage \<Rightarrow> heap_stats" where
  "getHeapStats formatBytes memoryUsage =
     \<lparr>rss = formatBytes (mu_rss memoryUsage),
      heapTotal = formatBytes (mu_heapTotal memoryUsage),
      heapUsed = formatBytes (mu_heapUsed memoryUsage),
      external = formatBytes (mu_external memoryUsage),
      arrayBuffers = formatBytes (num_or (mu_arrayBuffers memoryUsage) 0),
      rawHeapUsed = mu_heapUsed memoryUsage,
      rawHeapTotal = mu_heapTotal memoryUsage,
      heapUsedPercent = percent_toFixed2 (mu_heapUsed memoryUsage) (mu_heapTotal memoryUsage)\<rparr>"

text \<open>
  \<^verbatim>\<open>
  async function getProcessCount() {
    const result = await osutils.process.stats();
    if (result.success) {
      return { all: result.data.total, running: result.data.running,
        blocked: result.data.stopped || 0, sleeping: result.data.sleeping || 0 };
    }
    return { all: 0, running: 0, blocked: 0, sleeping: 0 };
  }
  \<close>
\<close>

definition getProcessCount ::
  "error + process_stats monitor_result \<Rightarrow> error + process_counts" where
  "getProcessCount stats =
     (case stats of
        Inl err \<Rightarrow> Inl err
      | Inr (Success d) \<Rightarrow>
          Inr \<lparr>pc_all = ps_total d, pc_running = ps_running d,
               pc_blocked = num_or (ps_stopped d) 0, pc_sleeping = num_or (ps_sleeping d) 0\<rparr>
      | Inr Failure \<Rightarrow> Inr \<lparr>pc_all = 0, pc_running = 0, pc_blocked = 0, pc_sleeping = 0\<rparr>)"

text \<open>
  \<^verbatim>\<open>
  async function getFileSystemInfo() {
    try {
      const fsSize = await cachedCall('fsSize', () => si.fsSize(), 10000);
      if (fsSize && fsSize.length > 0) {
        return fsSize.map(fs => ({
          type: fs.type || 'Unknown',
          mount: fs.mount || 'Unknown',
          size: formatBytes(fs.size || 0),
          used: formatBytes(fs.used || 0),
          available: formatBytes((fs.size || 0) - (fs.used || 0)),
          usedPercent: fs.use != null ? `${fs.use.toFixed(1)}%` : 'N/A'
        }));
      }
      return [];
    } catch (err) { console.error(...); return []; }
  }
  \<close>
  The producers of the module read nothing but their external call, so their world is
  \<open>unit\<close> and the clock is the value \<open>now\<close> that \<open>Date.now()\<close> returned to this call of
  \<open>cachedCall\<close>. The table only ever holds under \<open>'fsSize'\<close> what this producer stored;
  for data of another key's kind the model returns the empty list.
\<close>

definition file_system_of :: "(real \<Rightarrow> string) \<Rightarrow> fs_raw \<Rightarrow> file_system" where
  "file_system_of formatBytes fs =
     \<lparr>fsi_type = str_or (fs_type fs) ''Unknown'',
      fsi_mount = str_or (fs_mount fs) ''Unknown'',
      fsi_size = formatBytes (num_or (fs_size fs) 0),
      fsi_used = formatBytes (num_or (fs_used fs) 0),
      fsi_available = formatBytes (num_or (fs_size fs) 0 - num_or (fs_used fs) 0),
      fsi_usedPercent = (case fs_use fs of Some u \<Rightarrow> toFixed 1 u @ ''%'' | None \<Rightarrow> ''N/A'')\<rparr>"

definition getFileSystemInfo ::
  "(real \<Rightarrow> string) \<Rightarrow> int \<Rightarrow> error + fs_raw list option \<Rightarrow> state
     \<Rightarrow> file_system list \<times> state" where
  "getFileSystemInfo formatBytes now si_fsSize s =
     (case cachedCall (\<lambda>w. now) ''fsSize'' (\<lambda>w. (map_sum id FsSizeData si_fsSize, w)) 10000
             (cache s, ()) of
        (Inl err, c, w) \<Rightarrow> ([], s\<lparr>cache := c\<rparr>)
      | (Inr (FsSizeData (Some fsSize)), c, w) \<Rightarrow>
          (if length fsSize > 0 then map (file_system_of formatBytes) fsSize else [],
           s\<lparr>cache := c\<rparr>)
      | (Inr other, c, w) \<Rightarrow> ([], s\<lparr>cache := c\<rparr>))"

text \<open>
  \<^verbatim>\<open>
  async function getDiskLayout() {
    try {
      const disks = await cachedCall('diskLayout', () => si.diskLayout(), 30000);
      if (disks && disks.length > 0) {
        return disks.map(d => ({
          name: d.name || 'Unknown', vendor: d.vendor || '', type: d.type || 'Unknown',
          size: formatBytes(d.size || 0), interfaceType: d.interfaceType || 'Unknown',
          serialNum: d.serialNum || '', firmwareRevision: d.firmwareRevision || ''
        }));
      }
      return [];
    } catch (err) { console.error(...); return []; }
  }
  \<close>
\<close>

definition disk_entry_of :: "(real \<Rightarrow> string) \<Rightarrow> disk_raw \<Rightarrow> disk_entry" where
  "disk_entry_of formatBytes d =
     \<lparr>dl_name = str_or (d_name d) ''Unknown'',
      dl_vendor = str_or (d_vendor d) [],
      dl_type = str_or (d_type d) ''Unknown'',
      dl_size = formatBytes (num_or (d_size d) 0),
      dl_interfaceType = str_or (d_interfaceType d) ''Unknown'',
      dl_serialNum = str_or (d_serialNum d) [],
      dl_firmwareRevision = str_or (d_firmwareRevision d) []\<rparr>"

definition getDiskLayout ::
  "(real \<Rightarrow> string) \<Rightarrow> int \<Rightarrow> error + disk_raw list option \<Rightarrow> state
     \<Rightarrow> disk_entry list \<times> state" where
  "getDiskLayout formatBytes now si_diskLayout s =
     (case cachedCall (\<lambda>w. now) ''diskLayout'' (\<lambda>w. (map_sum id DiskLayoutData si_diskLayout, w))
             30000 (cache s, ()) of
        (Inl err, c, w) \<Rightarrow> ([], s\<lparr>cache := c\<rparr>)
      | (Inr (DiskLayoutData (Some disks)), c, w) \<Rightarrow>
          (if length disks > 0 then map (disk_entry_of formatBytes) disks else [],
           s\<lparr>cache := c\<rparr>)
      | (Inr other, c, w) \<Rightarrow> ([], s\<lparr>cache := c\<rparr>))"

text \<open>
  \<^verbatim>\<open>
  async function getBatteryStatus() {
    try {
      const battery = await si.battery();
      if (battery && battery.hasBattery) {
        return {
          level: battery.percent || 0,
          isCharging: (battery.isCharging || !battery.timeRemaining) || false,
          timeLeft: battery.timeRemaining || 0,
          voltage: battery.voltage || 0,
          cycleCount: battery.cycleCount || 0
        };
      }
      return null;
    } catch (err) { console.error(...); return null; }
  }
  \<close>
\<close>

definition getBatteryStatus :: "error + battery_raw option \<Rightarrow> battery_info option" where
  "getBatteryStatus si_battery =
     (case si_battery of
        Inl err \<Rightarrow> None
      | Inr None \<Rightarrow> None
      | Inr (Some b) \<Rightarrow>
          if hasBattery b then
            Some \<lparr>level = num_or (percent b) 0,
                  isCharging = (bat_isCharging b \<or> num_or (timeRemaining b) 0 = 0),
                  timeLeft = num_or (timeRemaining b) 0,
                  voltage = num_or (bat_voltage b) 0,
                  cycleCount = num_or (bat_cycleCount b) 0\<rparr>
          else None)"

subsection \<open>One pass: \<open>getStats\<close>\<close>

text \<open>
  Everything one call of \<open>getStats\<close> reads from outside the module: what each external
  call settles with, and what each reading of the clock and of \<open>os\<close> returns.
  \<open>osutils.network.statsAsync()\<close> is called twice in a pass, by \<open>getNetworkStats\<close> and
  by \<open>getNetworkSpeed\<close>; the clock is read at six places. \<open>os_cpus\<close> lists the \<open>model\<close>
  of each entry of \<open>os.cpus()\<close>.
\<close>

record env =
  memory_info :: "error + memory_info monitor_result"
  cpu_usage :: "error + real monitor_result"
  cpu_info :: "error + cpu_info monitor_result"
  disk_usageByMountPoint :: "error + disk_usage option monitor_result"
  statsAsync_interfaces :: "error + iface_raw list monitor_result"
  statsAsync_speed :: "error + iface_raw list monitor_result"
  si_cpuTemperature :: "error + temp_data option"
  process_memoryUsage :: memory_usage
  process_stats :: "error + process_stats monitor_result"
  si_fsSize :: "error + fs_raw list option"
  si_battery :: "error + battery_raw option"
  si_diskLayout :: "error + disk_raw list option"
  now_fsSize :: int
  now_battery :: int
  now_diskLayout :: int
  now_speed :: int
  iso_networkStats :: string
  iso_getStats :: string
  systemTime :: system_time_info
  os_cpus :: "string list"
  os_uptime :: real
  os_platform :: string
  os_arch :: string
  os_hostname :: string
  os_loadavg :: "real list"

record snapshot =
  cpu :: string
  cpu_name :: string
  ram :: string
  uptime :: real
  ram_text :: string
  platform :: string
  architecture :: string
  cpu_cores :: real
  hostname :: string
  load_average :: "real list"
  temperature :: "string option"
  disk :: "disk_stats option"
  network :: "network_interface list"
  cpu_history :: "cpu_sample list"
  memory_history :: "memory_sample list"
  network_history :: "network_sample list"
  heap :: heap_stats
  process_count :: process_counts
  file_system_info :: "file_system list"
  network_speed :: speed_info
  battery_status :: "battery_info option"
  system_time :: system_time_info
  disk_layout :: "disk_entry list"

text \<open>
  \<open>Promise.all\<close> over the twelve promises. Six of them cannot reject: \<open>getDiskStats\<close>,
  \<open>getTemperatureInfo\<close>, \<open>getFileSystemInfo\<close>, \<open>getNetworkSpeed\<close> and \<open>getDiskLayout\<close>
  catch, and \<open>getHeapStats\<close> awaits nothing. The other six are awaited as they are: the
  three \<open>osutils\<close> calls written in the array, \<open>getNetworkStats\<close>, \<open>getProcessCount\<close> and the
  cached battery call. When several reject, which error \<open>Promise.all\<close> rejects with
  depends on which settled first; the model takes the first in the order of the array.
\<close>

definition Promise_all ::
  "error + 'a \<Rightarrow> error + 'b \<Rightarrow> error + 'c \<Rightarrow> error + 'd \<Rightarrow> error + 'e \<Rightarrow> error + 'f
     \<Rightarrow> error + 'a \<times> 'b \<times> 'c \<times> 'd \<times> 'e \<times> 'f" where
  "Promise_all pa pb pc pd pe pf =
     (case pa of Inl err \<Rightarrow> Inl err | Inr a \<Rightarrow>
      case pb of Inl err \<Rightarrow> Inl err | Inr b \<Rightarrow>
      case pc of Inl err \<Rightarrow> Inl err | Inr c \<Rightarrow>
      case pd of Inl err \<Rightarrow> Inl err | Inr d \<Rightarrow>
      case pe of Inl err \<Rightarrow> Inl err | Inr e \<Rightarrow>
      case pf of Inl err \<Rightarrow> Inl err | Inr f \<Rightarrow> Inr (a, b, c, d, e, f))"

text \<open>
  \<^verbatim>\<open>
  exports.getStats = async function getStats() {
    const [ memRes, cpuUsageRes, cpuInfoRes, diskStats, networkStats, tempInfo,
            heapStats, processCount, fileSystemInfo, networkSpeed, batteryStatus, diskLayout
    ] = await Promise.all([
      osutils.memory.info(), osutils.cpu.usage(), osutils.cpu.info(),
      getDiskStats(), getNetworkStats(), getTemperatureInfo(), getHeapStats(),
      getProcessCount(), getFileSystemInfo(), getNetworkSpeed(),
      cachedCall('battery', () => getBatteryStatus(), 10000),
      getDiskLayout()
    ]);
    const totalMem = memRes.success ? memRes.data.total.toBytes() : 0;
    const usedMem = memRes.success ? memRes.data.used.toBytes() : 0;
    const usedMemPercent = memRes.success ? memRes.data.usagePercentage.toFixed(2) : "0.00";
    const cpuUsage = cpuUsageRes.success ? cpuUsageRes.data : 0;
    const cpuName = cpuInfoRes.success ? cpuInfoRes.data.model : os.cpus()[0]?.model || "Unknown";
    const cpuCores = cpuInfoRes.success ? cpuInfoRes.data.cores : os.cpus().length;
    const uptime = os.uptime();
    const systemTime = getSystemTime();
    const timestamp = new Date().toISOString();
    cpuHistory.push({ timestamp, usage: cpuUsage });
    memoryHistory.push({ timestamp, usage: parseFloat(usedMemPercent), used: usedMem, total: totalMem });
    if (cpuHistory.length > historyLimit) cpuHistory.shift();
    if (memoryHistory.length > historyLimit) memoryHistory.shift();
    return {
      cpu: `${cpuUsage.toFixed(2)}%`, cpu_name: cpuName, ram: `${usedMemPercent}%`, uptime,
      ram_text: `${formatBytes(usedMem)} / ${formatBytes(totalMem)} (${usedMemPercent}%)`,
      platform: os.platform(), architecture: os.arch(), cpu_cores: cpuCores,
      hostname: os.hostname(), load_average: os.loadavg(), temperature: tempInfo,
      disk: diskStats, network: networkStats, cpu_history: cpuHistory,
      memory_history: memoryHistory, network_history: networkHistory, heap: heapStats,
      process_count: processCount, file_system_info: fileSystemInfo,
      network_speed: networkSpeed, battery_status: batteryStatus,
      system_time: systemTime, disk_layout: diskLayout
    };
  };
  \<close>
  The adapters that change the module's variables change different ones, so the order in
  which their continuations run does not show in the result; the model runs them in the
  order of the array. What they changed stays changed when \<open>Promise.all\<close> rejects; the
  two pushes after the \<open>await\<close> are then not reached. The data under \<open>'battery'\<close> is
  always what \<open>getBatteryStatus\<close> returned; for data of another key's kind the model
  reports no battery.
\<close>

definition cached_battery ::
  "int \<Rightarrow> error + battery_raw option \<Rightarrow> state \<Rightarrow> (error + battery_info option) \<times> state" where
  "cached_battery now si_bat s =
     (case cachedCall (\<lambda>w. now) ''battery''
             (\<lambda>w. (Inr (BatteryData (getBatteryStatus si_bat)), w)) 10000 (cache s, ()) of
        (Inl err, c, w) \<Rightarrow> (Inl err, s\<lparr>cache := c\<rparr>)
      | (Inr (BatteryData b), c, w) \<Rightarrow> (Inr b, s\<lparr>cache := c\<rparr>)
      | (Inr other, c, w) \<Rightarrow> (Inr None, s\<lparr>cache := c\<rparr>))"

definition getStats :: "(real \<Rightarrow> string) \<Rightarrow> env \<Rightarrow> state \<Rightarrow> (error + snapshot) \<times> state" where
  "getStats formatBytes e s =
     (let diskStats = getDiskStats formatBytes ''/'' (disk_usageByMountPoint e);
          (networkStatsP, s1) =
            getNetworkStats formatBytes (statsAsync_interfaces e) (iso_networkStats e) s;
          tempInfo = getTemperatureInfo (si_cpuTemperature e);
          heapStats = getHeapStats formatBytes (process_memoryUsage e);
          processCountP = getProcessCount (process_stats e);
          (fileSystemInfo, s2) = getFileSystemInfo formatBytes (now_fsSize e) (si_fsSize e) s1;
          (networkSpeed, s3) = getNetworkSpeed formatBytes (statsAsync_speed e) (now_speed e) s2;
          (batteryStatusP, s4) = cached_battery (now_battery e) (si_battery e) s3;
          (diskLayout, s5) = getDiskLayout formatBytes (now_diskLayout e) (si_diskLayout e) s4
      in case Promise_all (memory_info e) (cpu_usage e) (cpu_info e)
                networkStatsP processCountP batteryStatusP of
           Inl err \<Rightarrow> (Inl err, s5)
         | Inr (memRes, cpuUsageRes, cpuInfoRes, networkStats, processCount, batteryStatus) \<Rightarrow>
             let totalMem = (case memRes of Success m \<Rightarrow> mem_total m | Failure \<Rightarrow> 0);
                 usedMem = (case memRes of Success m \<Rightarrow> mem_used m | Failure \<Rightarrow> 0);
                 usedMemPercent =
                   (case memRes of
                      Success m \<Rightarrow> toFixed 2 (mem_usagePercentage m)
                    | Failure \<Rightarrow> ''0.00'');
                 cpuUsage = (case cpuUsageRes of Success u \<Rightarrow> u | Failure \<Rightarrow> 0);
                 cpuName =
                   (case cpuInfoRes of
                      Success i \<Rightarrow> cpu_model i
                    | Failure \<Rightarrow>
                        str_or (case os_cpus e of [] \<Rightarrow> None | m # ms \<Rightarrow> Some m) ''Unknown'');
                 cpuCores =
                   (case cpuInfoRes of
                      Success i \<Rightarrow> cpu_cores_count i
                    | Failure \<Rightarrow> real (length (os_cpus e)));
                 timestamp = iso_getStats e;
                 cpuHistory' = push_shift historyLimit (cpuHistory s5)
                   \<lparr>cs_timestamp = timestamp, cs_usage = cpuUsage\<rparr>;
                 memoryHistory' = push_shift historyLimit (memoryHistory s5)
                   \<lparr>ms_timestamp = timestamp, ms_usage = parseFloat usedMemPercent,
                    ms_used = usedMem, ms_total = totalMem\<rparr>
             in (Inr \<lparr>cpu = toFixed 2 cpuUsage @ ''%'',
                      cpu_name = cpuName,
                      ram = usedMemPercent @ ''%'',
                      uptime = os_uptime e,
                      ram_text = formatBytes usedMem @ '' / '' @ formatBytes totalMem
                        @ '' ('' @ usedMemPercent @ ''%)'',
                      platform = os_platform e,
                      architecture = os_arch e,
                      cpu_cores = cpuCores,
                      hostname = os_hostname e,
                      load_average = os_loadavg e,
                      temperature = tempInfo,
                      disk = diskStats,
                      network = networkStats,
                      cpu_history = cpuHistory',
                      memory_history = memoryHistory',
                      network_history = networkHistory s5,
                      heap = heapStats,
                      process_count = processCount,
                      file_system_info = fileSystemInfo,
                      network_speed = networkSpeed,
                      battery_status = batteryStatus,
                      system_time = systemTime e,
                      disk_layout = diskLayout\<rparr>,
                 s5\<lparr>cpuHistory := cpuHistory', memoryHistory := memoryHistory'\<rparr>))"

subsection \<open>The memory reading, and inputs for the examples\<close>



text \<open>
  A stand-in for \<open>formatBytes\<close> in the examples, and a pass in which every source fails
  the way its adapter handles: the \<open>osutils\<close> calls report no success, the
  \<open>systeminformation\<close> calls reject.
\<close>

definition show_bytes :: "real \<Rightarrow> string" where
  "show_bytes b = toFixed 0 b @ '' B''"

definition env_down :: env where
  "env_down =
     \<lparr>memory_info = Inr Failure,
      cpu_usage = Inr Failure,
      cpu_info = Inr Failure,
      disk_usageByMountPoint = Inr Failure,
      statsAsync_interfaces = Inr Failure,
      statsAsync_speed = Inr Failure,
      si_cpuTemperature = Inl (Error ''no sensor''),
      process_memoryUsage =
        \<lparr>mu_rss = 4096, mu_heapTotal = 2048, mu_heapUsed = 1024, mu_external = 0,
         mu_arrayBuffers = None\<rparr>,
      process_stats = Inr Failure,
      si_fsSize = Inl (Error ''df failed''),
      si_battery = Inl (Error ''no battery''),
      si_diskLayout = Inl (Error ''lsblk failed''),
      now_fsSize = 1000,
      now_battery = 1000,
      now_diskLayout = 1000,
      now_speed = 1200,
      iso_networkStats = ''2026-01-01T00:00:01.200Z'',
      iso_getStats = ''2026-01-01T00:00:02.500Z'',
      systemTime =
        \<lparr>st_time = ''00:00:02'', st_date = ''1/1/2026'', st_timezone = ''UTC'',
         st_timestamp = ''2026-01-01T00:00:02.500Z''\<rparr>,
      os_cpus = [],
      os_uptime = 60,
      os_platform = ''linux'',
      os_arch = ''x64'',
      os_hostname = ''host'',
      os_loadavg = [0, 0, 0]\<rparr>"


definition env_rejected :: env where
  "env_rejected = env_down
     \<lparr>statsAsync_interfaces := Inl (Error ''statsAsync failed''),
      statsAsync_speed := Inl (Error ''statsAsync failed'')\<rparr>"


subsection \<open>Passes one after another\<close>

text \<open>
  The module's variables after a sequence of calls of \<open>getStats\<close>, each with its own
  readings, and the sample that a pass pushes on the CPU timeline.
\<close>

definition run_passes :: "(real \<Rightarrow> string) \<Rightarrow> env list \<Rightarrow> state \<Rightarrow> state" where
  "run_passes formatBytes es s = foldl (\<lambda>st e. snd (getStats formatBytes e st)) s es"

definition cpu_sample_of :: "env \<Rightarrow> cpu_sample" where
  "cpu_sample_of e =
     \<lparr>cs_timestamp = iso_getStats e,
      cs_usage = (case cpu_usage e of Inr (Success u) \<Rightarrow> u | _ \<Rightarrow> 0)\<rparr>"

definition awaited_bare_resolve :: "env \<Rightarrow> bool" where
  "awaited_bare_resolve e =
     (\<not> isl (memory_info e) \<and> \<not> isl (cpu_usage e) \<and> \<not> isl (cpu_info e)
      \<and> \<not> isl (statsAsync_interfaces e) \<and> \<not> isl (process_stats e))"

section \<open>Properties of the cache helper\<close>

lemma cachedCall_hit:
  assumes "c key = Some e" and "Date_now w - ts e < ttlMs"
  shows "cachedCall Date_now key fn ttlMs (c, w) = (Inr (data e), c, w)"
  using assms by (simp add: cachedCall_def)

lemma cachedCall_miss:
  assumes "\<not> is_fresh c key (Date_now w) ttlMs"
  shows "cachedCall Date_now key fn ttlMs (c, w) =
           (case fn w of
              (Inl err, w') \<Rightarrow> (Inl err, c, w')
            | (Inr d, w') \<Rightarrow> (Inr d, c(key \<mapsto> \<lparr>data = d, ts = Date_now w\<rparr>), w'))"
  using assms by (auto simp: cachedCall_def is_fresh_def Let_def split: option.splits)

lemma is_fresh_stored:
  "is_fresh (c(key \<mapsto> \<lparr>data = d, ts = t\<rparr>)) key now ttlMs \<longleftrightarrow> now - t < ttlMs"
  by (simp add: is_fresh_def)

text \<open>
  C4. A call that misses and whose producer resolves stores the value. A later call for
  the same key whose clock is less than the ttl past the first call's clock resolves to
  the stored value, with the table and the world as they were, whatever its producer is:
  the producer is not run. A later call at or past the ttl runs its producer; what it
  resolves to is the producer's value, stored over the old entry, and the old value is
  not returned.
\<close>

theorem cachedCall_freshness:
  assumes miss: "\<not> is_fresh c key (Date_now w) T"
      and stored: "cachedCall Date_now key fn T (c, w) = (Inr v, c', w')"
  shows "(Date_now wl - Date_now w < T \<longrightarrow>
            cachedCall Date_now key fn' T (c', wl) = (Inr v, c', wl))
       \<and> (T \<le> Date_now wl - Date_now w \<longrightarrow>
            cachedCall Date_now key fn' T (c', wl) =
              (case fn' wl of
                 (Inl err, wl') \<Rightarrow> (Inl err, c', wl')
               | (Inr d, wl') \<Rightarrow> (Inr d, c'(key \<mapsto> \<lparr>data = d, ts = Date_now wl\<rparr>), wl')))"
proof -
  from stored cachedCall_miss [where Date_now = Date_now and w = w, OF miss, of fn]
  have c': "c' = c(key \<mapsto> \<lparr>data = v, ts = Date_now w\<rparr>)"
    by (auto split: prod.splits sum.splits)
  have hit: "cachedCall Date_now key fn' T (c', wl) = (Inr v, c', wl)"
    if "Date_now wl - Date_now w < T"
    using that cachedCall_hit [where c = c' and key = key and e = "\<lparr>data = v, ts = Date_now w\<rparr>"
        and Date_now = Date_now and w = wl and ttlMs = T and fn = fn']
    by (simp add: c')
  have again: "cachedCall Date_now key fn' T (c', wl) =
      (case fn' wl of
         (Inl err, wl') \<Rightarrow> (Inl err, c', wl')
       | (Inr d, wl') \<Rightarrow> (Inr d, c'(key \<mapsto> \<lparr>data = d, ts = Date_now wl\<rparr>), wl'))"
    if "T \<le> Date_now wl - Date_now w"
  proof (rule cachedCall_miss [where Date_now = Date_now and w = wl])
    show "\<not> is_fresh c' key (Date_now wl) T"
      using that by (simp add: c' is_fresh_stored)
  qed
  from hit again show ?thesis by blast
qed

text \<open>
  The world is the clock; the producers return a constant and take no time. A first
  call at 1000 with ttl 5000 stores 7; a call at 5999 returns 7 although its producer
  would return 8; a call at 6000 runs that producer and stores 8.
\<close>

theorem cachedCall_freshness_witness:
  "cachedCall (\<lambda>w. w) ''fsSize'' (\<lambda>w. (Inr (8::nat), w)) 5000
       ([''fsSize'' \<mapsto> \<lparr>data = 7, ts = 1000\<rparr>], 5999)
     = (Inr 7, [''fsSize'' \<mapsto> \<lparr>data = 7, ts = 1000\<rparr>], 5999)
   \<and> cachedCall (\<lambda>w. w) ''fsSize'' (\<lambda>w. (Inr (8::nat), w)) 5000
       ([''fsSize'' \<mapsto> \<lparr>data = 7, ts = 1000\<rparr>], 6000)
     = (Inr 8, [''fsSize'' \<mapsto> \<lparr>data = 8, ts = 6000\<rparr>], 6000)"
proof -
  let ?c1 = "[''fsSize'' \<mapsto> \<lparr>data = 7::nat, ts = 1000\<rparr>]"
  have miss: "\<not> is_fresh Map.empty ''fsSize'' ((\<lambda>w::int. w) 1000) 5000"
    by (simp add: is_fresh_def)
  have stored: "cachedCall (\<lambda>w. w) ''fsSize'' (\<lambda>w. (Inr (7::nat), w)) 5000 (Map.empty, 1000)
      = (Inr 7, ?c1, 1000)"
    by (simp add: cachedCall_def)
  show ?thesis
    using cachedCall_freshness [where Date_now = "\<lambda>w. w" and w = 1000, OF miss stored,
        of 5999 "\<lambda>w. (Inr 8, w)"]
      cachedCall_freshness [where Date_now = "\<lambda>w. w" and w = 1000, OF miss stored,
        of 6000 "\<lambda>w. (Inr 8, w)"]
    by simp
qed

text \<open>
  C8. When a call misses and its producer rejects, the call rejects with the same error
  and the cache table is the one the call started with: nothing is stored under the key
  and an entry that was there, expired, stays.
\<close>

theorem cachedCall_producer_failure:
  assumes miss: "\<not> is_fresh c key (Date_now w) ttlMs"
      and failed: "fn w = (Inl err, w')"
  shows "cachedCall Date_now key fn ttlMs (c, w) = (Inl err, c, w')"
  using cachedCall_miss [where Date_now = Date_now and w = w, OF miss, of fn] failed by simp

theorem cachedCall_producer_failure_witness:
  "cachedCall (\<lambda>w. w) ''diskLayout'' (\<lambda>w. (Inl (Error ''EIO''), w + 40)) 30000
       ([''diskLayout'' \<mapsto> \<lparr>data = 3::nat, ts = 0\<rparr>], 30000)
     = (Inl (Error ''EIO''), [''diskLayout'' \<mapsto> \<lparr>data = 3, ts = 0\<rparr>], 30040)"
proof -
  have miss: "\<not> is_fresh [''diskLayout'' \<mapsto> \<lparr>data = 3::nat, ts = 0\<rparr>] ''diskLayout''
      ((\<lambda>w::int. w) 30000) 30000"
    by (simp add: is_fresh_def)
  have failed: "(\<lambda>w::int. (Inl (Error ''EIO'') :: error + nat, w + 40)) 30000
      = (Inl (Error ''EIO''), 30040)"
    by simp
  show ?thesis
    using cachedCall_producer_failure [where Date_now = "\<lambda>w. w" and w = 30000
        and fn = "\<lambda>w. (Inl (Error ''EIO''), w + 40)", OF miss] failed
    by simp
qed

text \<open>
  C10. On a miss whose producer resolves, the entry stored carries the clock read before
  the producer ran, not the clock of the world the producer left. So when the producer
  took at least the ttl, a call made when it resolves, or at any later clock, finds the
  entry expired and runs its own producer.
\<close>

theorem cachedCall_timestamp_at_start:
  assumes miss: "\<not> is_fresh c key (Date_now w) ttlMs"
      and resolved: "fn w = (Inr d, w')"
  shows "cachedCall Date_now key fn ttlMs (c, w)
           = (Inr d, c(key \<mapsto> \<lparr>data = d, ts = Date_now w\<rparr>), w')
       \<and> (ttlMs \<le> Date_now w' - Date_now w \<and> Date_now w' \<le> Date_now w'' \<longrightarrow>
            cachedCall Date_now key fn2 ttlMs (c(key \<mapsto> \<lparr>data = d, ts = Date_now w\<rparr>), w'') =
              (case fn2 w'' of
                 (Inl err, w3) \<Rightarrow> (Inl err, c(key \<mapsto> \<lparr>data = d, ts = Date_now w\<rparr>), w3)
               | (Inr d2, w3) \<Rightarrow> (Inr d2, c(key \<mapsto> \<lparr>data = d2, ts = Date_now w''\<rparr>), w3)))"
proof -
  let ?c' = "c(key \<mapsto> \<lparr>data = d, ts = Date_now w\<rparr>)"
  have first: "cachedCall Date_now key fn ttlMs (c, w) = (Inr d, ?c', w')"
    using cachedCall_miss [where Date_now = Date_now and w = w, OF miss, of fn] resolved by simp
  have expired: "cachedCall Date_now key fn2 ttlMs (?c', w'') =
      (case fn2 w'' of
         (Inl err, w3) \<Rightarrow> (Inl err, ?c', w3)
       | (Inr d2, w3) \<Rightarrow> (Inr d2, c(key \<mapsto> \<lparr>data = d2, ts = Date_now w''\<rparr>), w3))"
    if "ttlMs \<le> Date_now w' - Date_now w" and "Date_now w' \<le> Date_now w''"
  proof -
    have "\<not> is_fresh ?c' key (Date_now w'') ttlMs"
      using that by (simp add: is_fresh_stored)
    from cachedCall_miss [where Date_now = Date_now and w = w'', OF this, of fn2]
    show ?thesis by (simp split: prod.splits sum.splits)
  qed
  from first expired show ?thesis by blast
qed

text \<open>
  The world is the clock. A producer started at 0 resolves to 7 at 6000, with ttl 5000:
  the entry is stamped 0, and the call made at 6000 runs its producer again.
\<close>

theorem cachedCall_timestamp_at_start_witness:
  "cachedCall (\<lambda>w. w) ''battery'' (\<lambda>w. (Inr (7::nat), w + 6000)) 5000 (Map.empty, 0)
     = (Inr 7, [''battery'' \<mapsto> \<lparr>data = 7, ts = 0\<rparr>], 6000)
   \<and> cachedCall (\<lambda>w. w) ''battery'' (\<lambda>w. (Inr (8::nat), w)) 5000
       ([''battery'' \<mapsto> \<lparr>data = 7, ts = 0\<rparr>], 6000)
     = (Inr 8, [''battery'' \<mapsto> \<lparr>data = 8, ts = 6000\<rparr>], 6000)"
proof -
  have miss: "\<not> is_fresh (Map.empty :: nat cache) ''battery'' ((\<lambda>w::int. w) 0) 5000"
    by (simp add: is_fresh_def)
  have resolved: "(\<lambda>w::int. (Inr (7::nat) :: error + nat, w + 6000)) 0 = (Inr 7, 6000)"
    by simp
  show ?thesis
    using cachedCall_timestamp_at_start [where Date_now = "\<lambda>w. w" and w = 0
        and fn = "\<lambda>w. (Inr 7, w + 6000)" and w'' = 6000 and ?fn2.0 = "\<lambda>w. (Inr 8, w)", OF miss]
      resolved
    by simp
qed

section \<open>Properties of the bounded histories\<close>

lemma foldl_add_sum_list:
  "foldl (\<lambda>sum item. sum + f item) a xs = a + sum_list (map f xs)"
  for a :: real
  by (induction xs arbitrary: a) simp_all

lemma push_shift_cases:
  "push_shift limit xs x =
     (if length xs < limit then xs @ [x] else tl (xs @ [x]))"
  by (auto simp: push_shift_def Let_def)

lemma push_shift_drop:
  assumes "length xs \<le> limit"
  shows "push_shift limit xs x = drop (Suc (length xs) - limit) (xs @ [x])"
proof (cases "length xs < limit")
  case True
  then show ?thesis by (simp add: push_shift_cases)
next
  case False
  with assms have "Suc (length xs) - limit = Suc 0" by simp
  moreover have "push_shift limit xs x = drop (Suc 0) (xs @ [x])"
    using False by (simp only: push_shift_cases drop_Suc drop_0 if_False)
  ultimately show ?thesis by simp
qed

lemma foldl_push_shift:
  "length xs \<le> limit \<Longrightarrow>
     foldl (push_shift limit) xs ys = drop (length xs + length ys - limit) (xs @ ys)"
proof (induction ys rule: rev_induct)
  case Nil
  then show ?case by simp
next
  case (snoc y ys)
  let ?k = "length xs + length ys - limit"
  let ?h = "foldl (push_shift limit) xs ys"
  from snoc have h: "?h = drop ?k (xs @ ys)" by simp
  then have len: "length ?h = length xs + length ys - ?k" by simp
  then have le: "length ?h \<le> limit" by simp
  have app: "?h @ [y] = drop ?k ((xs @ ys) @ [y])"
    unfolding h by (subst drop_append) simp
  have "foldl (push_shift limit) xs (ys @ [y]) = push_shift limit ?h y" by simp
  also have "\<dots> = drop (Suc (length ?h) - limit) (?h @ [y])"
    using le by (rule push_shift_drop)
  also have "\<dots> = drop (Suc (length ?h) - limit + ?k) ((xs @ ys) @ [y])"
    by (simp only: app drop_drop)
  also have "Suc (length ?h) - limit + ?k = length xs + length (ys @ [y]) - limit"
    using len by simp
  finally show ?case by simp
qed

lemma push_shift_at_limit:
  assumes "length xs = limit" and "0 < limit"
  shows "push_shift limit xs x = tl xs @ [x]"
  using assms by (cases xs) (simp_all add: push_shift_cases)

text \<open>
  C3. Starting from the empty array, after any sequence of pushes the history holds
  the last \<open>min N 20\<close> samples pushed, oldest first. A push onto a history of 20 samples
  drops the first one: what was at index 1 is now at index 0.
\<close>

theorem history_bound:
  "foldl (push_shift historyLimit) [] samples = drop (length samples - 20) samples
   \<and> length (foldl (push_shift historyLimit) [] samples) = min (length samples) 20
   \<and> (length view = 20 \<longrightarrow>
        push_shift historyLimit view sample = tl view @ [sample]
        \<and> hd (push_shift historyLimit view sample) = view ! 1)"
proof -
  have run: "foldl (push_shift historyLimit) [] samples = drop (length samples - 20) samples"
    using foldl_push_shift [of "[]" historyLimit samples] by (simp add: historyLimit_def)
  have full: "push_shift historyLimit view sample = tl view @ [sample]" if "length view = 20"
    using that push_shift_at_limit [of view historyLimit sample] by (simp add: historyLimit_def)
  have "hd (tl view @ [sample]) = view ! 1" if "length view = 20"
  proof -
    from that obtain a b rest where "view = a # b # rest"
      by (cases view; cases "tl view") auto
    then show ?thesis by simp
  qed
  with run full show ?thesis by simp
qed

theorem history_bound_witness:
  "foldl (push_shift historyLimit) []
      [1, 2, 3, 4, 5, 6, 7, 8, 9, 10, 11, 12, 13, 14, 15, 16, 17, 18, 19, 20, 21 :: nat]
     = [2, 3, 4, 5, 6, 7, 8, 9, 10, 11, 12, 13, 14, 15, 16, 17, 18, 19, 20, 21]
   \<and> push_shift historyLimit
      [1, 2, 3, 4, 5, 6, 7, 8, 9, 10, 11, 12, 13, 14, 15, 16, 17, 18, 19, 20 :: nat] 21
     = [2, 3, 4, 5, 6, 7, 8, 9, 10, 11, 12, 13, 14, 15, 16, 17, 18, 19, 20, 21]"
  using history_bound [of "[1, 2, 3, 4, 5, 6, 7, 8, 9, 10, 11, 12, 13, 14, 15, 16, 17, 18, 19, 20, 21 :: nat]"
      "[1, 2, 3, 4, 5, 6, 7, 8, 9, 10, 11, 12, 13, 14, 15, 16, 17, 18, 19, 20 :: nat]" 21]
  by simp

section \<open>Properties of the network speed estimate\<close>

lemma getNetworkSpeed_first:
  assumes "lastNetworkStats s = None" and "ifaces \<noteq> []"
  shows "getNetworkSpeed formatBytes (Inr (Success ifaces)) now s =
           (zero_speed, s\<lparr>lastNetworkStats := Some \<lparr>rx = sum_rx ifaces, tx = sum_tx ifaces\<rparr>\<rparr>)"
  using assms by (simp add: getNetworkSpeed_def)

lemma getNetworkSpeed_next:
  assumes "lastNetworkStats s = Some l" and "ifaces \<noteq> []"
  shows "getNetworkSpeed formatBytes (Inr (Success ifaces)) now s =
     (let history = push_shift 5 (networkSpeedHistory s)
            \<lparr>ss_download = max 0 (sum_rx ifaces - rx l), ss_upload = max 0 (sum_tx ifaces - tx l),
             ss_timestamp = now\<rparr>;
          avgDownload = sum_list (map ss_download history) / real (length history);
          avgUpload = sum_list (map ss_upload history) / real (length history)
      in (\<lparr>download = formatBytes avgDownload @ ''/s'', upload = formatBytes avgUpload @ ''/s'',
           downloadRaw = avgDownload, uploadRaw = avgUpload\<rparr>,
          s\<lparr>networkSpeedHistory := history,
            lastNetworkStats := Some \<lparr>rx = sum_rx ifaces, tx = sum_tx ifaces\<rparr>\<rparr>))"
  using assms by (simp add: getNetworkSpeed_def Let_def foldl_add_sum_list)

text \<open>
  C5. With no counters stored, a call that sees at least one interface returns the zero
  record whatever the counters are, and stores the two sums. If the speed history was
  empty, the next call returns the two differences (0 where the sum went down) as rates,
  and the history then holds that one sample.
\<close>

theorem getNetworkSpeed_cold_start:
  assumes "lastNetworkStats s = None" and "ifaces \<noteq> []"
  shows "getNetworkSpeed formatBytes (Inr (Success ifaces)) now s =
           (zero_speed, s\<lparr>lastNetworkStats := Some \<lparr>rx = sum_rx ifaces, tx = sum_tx ifaces\<rparr>\<rparr>)
       \<and> (networkSpeedHistory s = [] \<and> ifaces' \<noteq> [] \<longrightarrow>
            getNetworkSpeed formatBytes (Inr (Success ifaces')) now'
                (s\<lparr>lastNetworkStats := Some \<lparr>rx = sum_rx ifaces, tx = sum_tx ifaces\<rparr>\<rparr>) =
              (let rawDownload = max 0 (sum_rx ifaces' - sum_rx ifaces);
                   rawUpload = max 0 (sum_tx ifaces' - sum_tx ifaces)
               in (\<lparr>download = formatBytes rawDownload @ ''/s'',
                    upload = formatBytes rawUpload @ ''/s'',
                    downloadRaw = rawDownload, uploadRaw = rawUpload\<rparr>,
                   s\<lparr>networkSpeedHistory :=
                       [\<lparr>ss_download = rawDownload, ss_upload = rawUpload, ss_timestamp = now'\<rparr>],
                     lastNetworkStats := Some \<lparr>rx = sum_rx ifaces', tx = sum_tx ifaces'\<rparr>\<rparr>)))"
proof -
  let ?s1 = "s\<lparr>lastNetworkStats := Some \<lparr>rx = sum_rx ifaces, tx = sum_tx ifaces\<rparr>\<rparr>"
  have first: "getNetworkSpeed formatBytes (Inr (Success ifaces)) now s = (zero_speed, ?s1)"
    using assms by (rule getNetworkSpeed_first)
  have "getNetworkSpeed formatBytes (Inr (Success ifaces')) now' ?s1 =
      (let rawDownload = max 0 (sum_rx ifaces' - sum_rx ifaces);
           rawUpload = max 0 (sum_tx ifaces' - sum_tx ifaces)
       in (\<lparr>download = formatBytes rawDownload @ ''/s'',
            upload = formatBytes rawUpload @ ''/s'',
            downloadRaw = rawDownload, uploadRaw = rawUpload\<rparr>,
           s\<lparr>networkSpeedHistory :=
               [\<lparr>ss_download = rawDownload, ss_upload = rawUpload, ss_timestamp = now'\<rparr>],
             lastNetworkStats := Some \<lparr>rx = sum_rx ifaces', tx = sum_tx ifaces'\<rparr>\<rparr>))"
    if "networkSpeedHistory s = []" and "ifaces' \<noteq> []"
    using that
      getNetworkSpeed_next [of ?s1 "\<lparr>rx = sum_rx ifaces, tx = sum_tx ifaces\<rparr>" ifaces' formatBytes now']
    by (simp add: push_shift_def Let_def)
  with first show ?thesis by simp
qed

text \<open>
  The scenario of the specification, with one interface and \<open>toFixed(0)\<close> standing in
  for \<open>formatBytes\<close>: counters 1000 and 500, then 3000 and 1500.
\<close>

theorem getNetworkSpeed_cold_start_witness:
  "getNetworkSpeed (toFixed 0)
       (Inr (Success [\<lparr>iface_interface = ''eth0'', rxBytes = Some 1000, txBytes = Some 500\<rparr>]))
       1000 initial
     = (\<lparr>download = ''0 KB/s'', upload = ''0 KB/s'', downloadRaw = 0, uploadRaw = 0\<rparr>,
        initial\<lparr>lastNetworkStats := Some \<lparr>rx = 1000, tx = 500\<rparr>\<rparr>)
   \<and> getNetworkSpeed (toFixed 0)
       (Inr (Success [\<lparr>iface_interface = ''eth0'', rxBytes = Some 3000, txBytes = Some 1500\<rparr>]))
       2000 (initial\<lparr>lastNetworkStats := Some \<lparr>rx = 1000, tx = 500\<rparr>\<rparr>)
     = (\<lparr>download = ''2000/s'', upload = ''1000/s'', downloadRaw = 2000, uploadRaw = 1000\<rparr>,
        initial\<lparr>networkSpeedHistory :=
            [\<lparr>ss_download = 2000, ss_upload = 1000, ss_timestamp = 2000\<rparr>],
          lastNetworkStats := Some \<lparr>rx = 3000, tx = 1500\<rparr>\<rparr>)"
proof -
  let ?a = "[\<lparr>iface_interface = ''eth0'', rxBytes = Some 1000, txBytes = Some 500\<rparr>]"
  let ?b = "[\<lparr>iface_interface = ''eth0'', rxBytes = Some 3000, txBytes = Some 1500\<rparr>]"
  have none: "lastNetworkStats initial = None" by (simp add: initial_def)
  have ne: "?a \<noteq> []" by simp
  have a: "sum_rx ?a = 1000" "sum_tx ?a = 500"
    by (simp_all add: sum_rx_def sum_tx_def bytes_or_0_def)
  have b: "sum_rx ?b = 3000" "sum_tx ?b = 1500"
    by (simp_all add: sum_rx_def sum_tx_def bytes_or_0_def)
  have fmt: "toFixed 0 2000 = ''2000''" "toFixed 0 1000 = ''1000''"
    by (simp_all add: toFixed_def digits.simps)
  have h: "networkSpeedHistory initial = []" by (simp add: initial_def)
  show ?thesis
    using getNetworkSpeed_cold_start [OF none ne, of "toFixed 0" 1000 ?b 2000]
    by (simp add: a b fmt h zero_speed_def Let_def)
qed

text \<open>
  C6. With counters stored, a call that sees at least one interface pushes the sample
  \<open>max 0 (current - previous)\<close> for each direction, drops the oldest sample when five were
  already there, and returns the sum of the samples now in the history divided by their
  number. The sample is never negative, and is 0 where the counter went down.
\<close>

theorem getNetworkSpeed_update:
  assumes last: "lastNetworkStats s = Some l" and ifaces: "ifaces \<noteq> []"
  shows
    "(let sample = \<lparr>ss_download = max 0 (sum_rx ifaces - rx l),
                    ss_upload = max 0 (sum_tx ifaces - tx l), ss_timestamp = now\<rparr>;
          old = networkSpeedHistory s;
          history = (if length old < 5 then old @ [sample] else tl old @ [sample]);
          avgDownload = sum_list (map ss_download history) / real (length history);
          avgUpload = sum_list (map ss_upload history) / real (length history)
      in getNetworkSpeed formatBytes (Inr (Success ifaces)) now s =
           (\<lparr>download = formatBytes avgDownload @ ''/s'', upload = formatBytes avgUpload @ ''/s'',
             downloadRaw = avgDownload, uploadRaw = avgUpload\<rparr>,
            s\<lparr>networkSpeedHistory := history,
              lastNetworkStats := Some \<lparr>rx = sum_rx ifaces, tx = sum_tx ifaces\<rparr>\<rparr>)
         \<and> 0 \<le> ss_download sample \<and> 0 \<le> ss_upload sample
         \<and> (sum_rx ifaces < rx l \<longrightarrow> ss_download sample = 0)
         \<and> (sum_tx ifaces < tx l \<longrightarrow> ss_upload sample = 0)
         \<and> (length old < 5 \<longrightarrow> length history = length old + 1)
         \<and> (length old = 5 \<longrightarrow> length history = 5))"
proof -
  have push: "push_shift 5 old x = (if length old < 5 then old @ [x] else tl old @ [x])"
    for old :: "speed_sample list" and x
    by (cases old) (simp_all add: push_shift_cases)
  show ?thesis
    using getNetworkSpeed_next [OF last ifaces, of formatBytes now]
    by (simp add: Let_def push)
qed

text \<open>
  Five samples in the history, the download counter reset (400 after 1000): the new
  download sample is 0, the first old sample is dropped, and the averages are over five.
\<close>

theorem getNetworkSpeed_update_witness:
  "getNetworkSpeed (toFixed 0)
      (Inr (Success [\<lparr>iface_interface = ''eth0'', rxBytes = Some 400, txBytes = Some 1500\<rparr>]))
      6000
      (initial\<lparr>lastNetworkStats := Some \<lparr>rx = 1000, tx = 500\<rparr>,
         networkSpeedHistory :=
           [\<lparr>ss_download = 10, ss_upload = 1, ss_timestamp = 1000\<rparr>,
            \<lparr>ss_download = 20, ss_upload = 2, ss_timestamp = 2000\<rparr>,
            \<lparr>ss_download = 30, ss_upload = 3, ss_timestamp = 3000\<rparr>,
            \<lparr>ss_download = 40, ss_upload = 4, ss_timestamp = 4000\<rparr>,
            \<lparr>ss_download = 50, ss_upload = 5, ss_timestamp = 5000\<rparr>]\<rparr>)
    = (\<lparr>download = ''28/s'', upload = ''203/s'', downloadRaw = 28, uploadRaw = 1014 / 5\<rparr>,
       initial\<lparr>lastNetworkStats := Some \<lparr>rx = 400, tx = 1500\<rparr>,
         networkSpeedHistory :=
           [\<lparr>ss_download = 20, ss_upload = 2, ss_timestamp = 2000\<rparr>,
            \<lparr>ss_download = 30, ss_upload = 3, ss_timestamp = 3000\<rparr>,
            \<lparr>ss_download = 40, ss_upload = 4, ss_timestamp = 4000\<rparr>,
            \<lparr>ss_download = 50, ss_upload = 5, ss_timestamp = 5000\<rparr>,
            \<lparr>ss_download = 0, ss_upload = 1000, ss_timestamp = 6000\<rparr>]\<rparr>)"
proof -
  let ?ifaces = "[\<lparr>iface_interface = ''eth0'', rxBytes = Some 400, txBytes = Some 1500\<rparr>]"
  let ?s = "initial\<lparr>lastNetworkStats := Some \<lparr>rx = 1000, tx = 500\<rparr>,
         networkSpeedHistory :=
           [\<lparr>ss_download = 10, ss_upload = 1, ss_timestamp = 1000\<rparr>,
            \<lparr>ss_download = 20, ss_upload = 2, ss_timestamp = 2000\<rparr>,
            \<lparr>ss_download = 30, ss_upload = 3, ss_timestamp = 3000\<rparr>,
            \<lparr>ss_download = 40, ss_upload = 4, ss_timestamp = 4000\<rparr>,
            \<lparr>ss_download = 50, ss_upload = 5, ss_timestamp = 5000\<rparr>]\<rparr>"
  have last: "lastNetworkStats ?s = Some \<lparr>rx = 1000, tx = 500\<rparr>" by simp
  have ne: "?ifaces \<noteq> []" by simp
  have sums: "sum_rx ?ifaces = 400" "sum_tx ?ifaces = 1500"
    by (simp_all add: sum_rx_def sum_tx_def bytes_or_0_def)
  have fmt: "toFixed 0 28 = ''28''" "toFixed 0 (1014 / 5) = ''203''"
    by (simp_all add: toFixed_def digits.simps)
  show ?thesis
    using getNetworkSpeed_update [OF last ne, of 6000 "toFixed 0"]
    by (simp add: Let_def sums fmt initial_def)
qed

text \<open>
  C7. When the call of \<open>osutils.network.statsAsync()\<close> rejects, reports no success or
  lists no interface, the zero record is returned and every variable of the module,
  \<open>lastNetworkStats\<close> and \<open>networkSpeedHistory\<close> among them, is as it was.
\<close>

theorem getNetworkSpeed_source_failed:
  "getNetworkSpeed formatBytes (Inl err) now s = (zero_speed, s)
   \<and> getNetworkSpeed formatBytes (Inr Failure) now s = (zero_speed, s)
   \<and> getNetworkSpeed formatBytes (Inr (Success [])) now s = (zero_speed, s)"
  by (simp add: getNetworkSpeed_def)

section \<open>Properties of one pass\<close>

lemma getNetworkStats_frame:
  "cpuHistory (snd (getNetworkStats fmt r t s)) = cpuHistory s"
  "memoryHistory (snd (getNetworkStats fmt r t s)) = memoryHistory s"
  "cache (snd (getNetworkStats fmt r t s)) = cache s"
  "lastNetworkStats (snd (getNetworkStats fmt r t s)) = lastNetworkStats s"
  "networkSpeedHistory (snd (getNetworkStats fmt r t s)) = networkSpeedHistory s"
  by (simp_all add: getNetworkStats_def Let_def split: sum.splits monitor_result.splits)


lemma getNetworkStats_result:
  "fst (getNetworkStats fmt (Inl err) t s) = Inl err"
  "fst (getNetworkStats fmt (Inr Failure) t s) = Inr []"
  "\<exists>ns. fst (getNetworkStats fmt (Inr r) t s) = Inr ns"
  by (simp_all add: getNetworkStats_def Let_def split: monitor_result.splits)

lemma getFileSystemInfo_frame:
  "cpuHistory (snd (getFileSystemInfo fmt now r s)) = cpuHistory s"
  "memoryHistory (snd (getFileSystemInfo fmt now r s)) = memoryHistory s"
  "networkHistory (snd (getFileSystemInfo fmt now r s)) = networkHistory s"
  "lastNetworkStats (snd (getFileSystemInfo fmt now r s)) = lastNetworkStats s"
  "networkSpeedHistory (snd (getFileSystemInfo fmt now r s)) = networkSpeedHistory s"
  by (simp_all add: getFileSystemInfo_def
      split: prod.splits sum.splits cache_data.splits option.splits)

lemma getDiskLayout_frame:
  "cpuHistory (snd (getDiskLayout fmt now r s)) = cpuHistory s"
  "memoryHistory (snd (getDiskLayout fmt now r s)) = memoryHistory s"
  "networkHistory (snd (getDiskLayout fmt now r s)) = networkHistory s"
  "lastNetworkStats (snd (getDiskLayout fmt now r s)) = lastNetworkStats s"
  "networkSpeedHistory (snd (getDiskLayout fmt now r s)) = networkSpeedHistory s"
  by (simp_all add: getDiskLayout_def
      split: prod.splits sum.splits cache_data.splits option.splits)

lemma cached_battery_frame:
  "cpuHistory (snd (cached_battery now r s)) = cpuHistory s"
  "memoryHistory (snd (cached_battery now r s)) = memoryHistory s"
  "networkHistory (snd (cached_battery now r s)) = networkHistory s"
  "lastNetworkStats (snd (cached_battery now r s)) = lastNetworkStats s"
  "networkSpeedHistory (snd (cached_battery now r s)) = networkSpeedHistory s"
  by (simp_all add: cached_battery_def
      split: prod.splits sum.splits cache_data.splits option.splits)

lemma cached_battery_resolves:
  "\<exists>b. fst (cached_battery now r s) = Inr b"
  by (auto simp: cached_battery_def cachedCall_def Let_def
      split: prod.splits sum.splits cache_data.splits option.splits if_splits)

lemma getNetworkSpeed_frame:
  "cpuHistory (snd (getNetworkSpeed fmt r now s)) = cpuHistory s"
  "memoryHistory (snd (getNetworkSpeed fmt r now s)) = memoryHistory s"
  "networkHistory (snd (getNetworkSpeed fmt r now s)) = networkHistory s"
  "cache (snd (getNetworkSpeed fmt r now s)) = cache s"
  by (simp_all add: getNetworkSpeed_def Let_def
      split: sum.splits monitor_result.splits option.splits)

text \<open>The state after the five adapters that touch it, and the pass as a whole.\<close>

lemma getStats_rejected:
  assumes "getNetworkStats fmt (statsAsync_interfaces e) (iso_networkStats e) s = (nsP, s1)"
      and "getFileSystemInfo fmt (now_fsSize e) (si_fsSize e) s1 = (fsi, s2)"
      and "getNetworkSpeed fmt (statsAsync_speed e) (now_speed e) s2 = (spd, s3)"
      and "cached_battery (now_battery e) (si_battery e) s3 = (batP, s4)"
      and "getDiskLayout fmt (now_diskLayout e) (si_diskLayout e) s4 = (dl, s5)"
      and "Promise_all (memory_info e) (cpu_usage e) (cpu_info e) nsP
             (getProcessCount (process_stats e)) batP = Inl err"
  shows "getStats fmt e s = (Inl err, s5)"
  using assms by (simp add: getStats_def)

lemma getStats_resolved:
  assumes "getNetworkStats fmt (statsAsync_interfaces e) (iso_networkStats e) s = (nsP, s1)"
      and "getFileSystemInfo fmt (now_fsSize e) (si_fsSize e) s1 = (fsi, s2)"
      and "getNetworkSpeed fmt (statsAsync_speed e) (now_speed e) s2 = (spd, s3)"
      and "cached_battery (now_battery e) (si_battery e) s3 = (batP, s4)"
      and "getDiskLayout fmt (now_diskLayout e) (si_diskLayout e) s4 = (dl, s5)"
      and "Promise_all (memory_info e) (cpu_usage e) (cpu_info e) nsP
             (getProcessCount (process_stats e)) batP = Inr (memRes, cpuRes, infoRes, ns, pc, bat)"
  shows "\<exists>snap.
     getStats fmt e s =
       (Inr snap,
        s5\<lparr>cpuHistory := push_shift historyLimit (cpuHistory s5)
              \<lparr>cs_timestamp = iso_getStats e,
               cs_usage = (case cpuRes of Success u \<Rightarrow> u | Failure \<Rightarrow> 0)\<rparr>,
           memoryHistory := push_shift historyLimit (memoryHistory s5)
              \<lparr>ms_timestamp = iso_getStats e,
               ms_usage = parseFloat (case memRes of
                                        Success m \<Rightarrow> toFixed 2 (mem_usagePercentage m)
                                      | Failure \<Rightarrow> ''0.00''),
               ms_used = (case memRes of Success m \<Rightarrow> mem_used m | Failure \<Rightarrow> 0),
               ms_total = (case memRes of Success m \<Rightarrow> mem_total m | Failure \<Rightarrow> 0)\<rparr>\<rparr>)
     \<and> ram snap = (case memRes of
                     Success m \<Rightarrow> toFixed 2 (mem_usagePercentage m)
                   | Failure \<Rightarrow> ''0.00'') @ ''%''
     \<and> ram_text snap =
         fmt (case memRes of Success m \<Rightarrow> mem_used m | Failure \<Rightarrow> 0) @ '' / '' @
         fmt (case memRes of Success m \<Rightarrow> mem_total m | Failure \<Rightarrow> 0) @ '' ('' @
         (case memRes of
            Success m \<Rightarrow> toFixed 2 (mem_usagePercentage m)
          | Failure \<Rightarrow> ''0.00'') @ ''%)''
     \<and> cpu snap = toFixed 2 (case cpuRes of Success u \<Rightarrow> u | Failure \<Rightarrow> 0) @ ''%''
     \<and> temperature snap = getTemperatureInfo (si_cpuTemperature e)
     \<and> disk snap = getDiskStats fmt ''/'' (disk_usageByMountPoint e)
     \<and> network snap = ns
     \<and> process_count snap = pc
     \<and> file_system_info snap = fsi
     \<and> network_speed snap = spd
     \<and> battery_status snap = bat
     \<and> disk_layout snap = dl
     \<and> network_history snap = networkHistory s5
     \<and> cpu_history snap = push_shift historyLimit (cpuHistory s5)
              \<lparr>cs_timestamp = iso_getStats e,
               cs_usage = (case cpuRes of Success u \<Rightarrow> u | Failure \<Rightarrow> 0)\<rparr>"
  using assms by (simp add: getStats_def Let_def)


lemma getNetworkSpeed_local:
  assumes "lastNetworkStats s = lastNetworkStats t"
      and "networkSpeedHistory s = networkSpeedHistory t"
  shows "fst (getNetworkSpeed fmt r now s) = fst (getNetworkSpeed fmt r now t)"
    and "lastNetworkStats (snd (getNetworkSpeed fmt r now s))
           = lastNetworkStats (snd (getNetworkSpeed fmt r now t))"
    and "networkSpeedHistory (snd (getNetworkSpeed fmt r now s))
           = networkSpeedHistory (snd (getNetworkSpeed fmt r now t))"
  using assms
  by (simp_all add: getNetworkSpeed_def Let_def
      split: sum.splits monitor_result.splits option.splits)

lemma Promise_all_Inr:
  "Promise_all pa pb pc pd pe pf = Inr (a, b, c, d, e, f) \<longleftrightarrow>
     pa = Inr a \<and> pb = Inr b \<and> pc = Inr c \<and> pd = Inr d \<and> pe = Inr e \<and> pf = Inr f"
  by (auto simp: Promise_all_def split: sum.splits)

lemma getStats_InrE:
  assumes pass: "getStats fmt e s = (Inr snap, s')"
  obtains nsP s1 fsi s2 spd s3 batP s4 dl s5 memRes cpuRes infoRes ns pc bat where
    "getNetworkStats fmt (statsAsync_interfaces e) (iso_networkStats e) s = (nsP, s1)"
    "getFileSystemInfo fmt (now_fsSize e) (si_fsSize e) s1 = (fsi, s2)"
    "getNetworkSpeed fmt (statsAsync_speed e) (now_speed e) s2 = (spd, s3)"
    "cached_battery (now_battery e) (si_battery e) s3 = (batP, s4)"
    "getDiskLayout fmt (now_diskLayout e) (si_diskLayout e) s4 = (dl, s5)"
    "Promise_all (memory_info e) (cpu_usage e) (cpu_info e) nsP
       (getProcessCount (process_stats e)) batP = Inr (memRes, cpuRes, infoRes, ns, pc, bat)"
proof -
  obtain nsP s1 where ns:
    "getNetworkStats fmt (statsAsync_interfaces e) (iso_networkStats e) s = (nsP, s1)"
    by (cases "getNetworkStats fmt (statsAsync_interfaces e) (iso_networkStats e) s")
  obtain fsi s2 where fs: "getFileSystemInfo fmt (now_fsSize e) (si_fsSize e) s1 = (fsi, s2)"
    by (cases "getFileSystemInfo fmt (now_fsSize e) (si_fsSize e) s1")
  obtain spd s3 where sp: "getNetworkSpeed fmt (statsAsync_speed e) (now_speed e) s2 = (spd, s3)"
    by (cases "getNetworkSpeed fmt (statsAsync_speed e) (now_speed e) s2")
  obtain batP s4 where bat: "cached_battery (now_battery e) (si_battery e) s3 = (batP, s4)"
    by (cases "cached_battery (now_battery e) (si_battery e) s3")
  obtain dl s5 where dk: "getDiskLayout fmt (now_diskLayout e) (si_diskLayout e) s4 = (dl, s5)"
    by (cases "getDiskLayout fmt (now_diskLayout e) (si_diskLayout e) s4")
  let ?all = "Promise_all (memory_info e) (cpu_usage e) (cpu_info e) nsP
      (getProcessCount (process_stats e)) batP"
  show thesis
  proof (cases ?all)
    case (Inl err)
    from getStats_rejected [OF ns fs sp bat dk Inl] pass show thesis by simp
  next
    case (Inr t)
    obtain memRes cpuRes infoRes nets pc b where "t = (memRes, cpuRes, infoRes, nets, pc, b)"
      by (cases t)
    with Inr have "?all = Inr (memRes, cpuRes, infoRes, nets, pc, b)" by simp
    with ns fs sp bat dk show thesis by (rule that)
  qed
qed

text \<open>The five adapters that touch the state leave both timelines of \<open>getStats\<close> alone.\<close>

lemma adapters_frame:
  assumes "getNetworkStats fmt r1 t s = (nsP, s1)"
      and "getFileSystemInfo fmt n2 r2 s1 = (fsi, s2)"
      and "getNetworkSpeed fmt r3 n3 s2 = (spd, s3)"
      and "cached_battery n4 r4 s3 = (batP, s4)"
      and "getDiskLayout fmt n5 r5 s4 = (dl, s5)"
  shows "cpuHistory s5 = cpuHistory s"
    and "memoryHistory s5 = memoryHistory s"
    and "networkHistory s5 = networkHistory (snd (getNetworkStats fmt r1 t s))"
    and "lastNetworkStats s5 = lastNetworkStats (snd (getNetworkSpeed fmt r3 n3 s))"
    and "networkSpeedHistory s5 = networkSpeedHistory (snd (getNetworkSpeed fmt r3 n3 s))"
proof -
  have s1: "s1 = snd (getNetworkStats fmt r1 t s)"
    and s2: "s2 = snd (getFileSystemInfo fmt n2 r2 s1)"
    and s3: "s3 = snd (getNetworkSpeed fmt r3 n3 s2)"
    and s4: "s4 = snd (cached_battery n4 r4 s3)"
    and s5: "s5 = snd (getDiskLayout fmt n5 r5 s4)"
    by (simp_all add: assms)
  show "cpuHistory s5 = cpuHistory s"
    by (simp add: s1 s2 s3 s4 s5 getNetworkStats_frame getFileSystemInfo_frame
        getNetworkSpeed_frame cached_battery_frame getDiskLayout_frame)
  show "memoryHistory s5 = memoryHistory s"
    by (simp add: s1 s2 s3 s4 s5 getNetworkStats_frame getFileSystemInfo_frame
        getNetworkSpeed_frame cached_battery_frame getDiskLayout_frame)
  show "networkHistory s5 = networkHistory (snd (getNetworkStats fmt r1 t s))"
    by (simp add: s1 s2 s3 s4 s5 getFileSystemInfo_frame
        getNetworkSpeed_frame cached_battery_frame getDiskLayout_frame)
  have last2: "lastNetworkStats s2 = lastNetworkStats s"
    and hist2: "networkSpeedHistory s2 = networkSpeedHistory s"
    by (simp_all add: s1 s2 getNetworkStats_frame getFileSystemInfo_frame)
  have "lastNetworkStats s5 = lastNetworkStats s3" "networkSpeedHistory s5 = networkSpeedHistory s3"
    by (simp_all add: s4 s5 cached_battery_frame getDiskLayout_frame)
  then show "lastNetworkStats s5 = lastNetworkStats (snd (getNetworkSpeed fmt r3 n3 s))"
    and "networkSpeedHistory s5 = networkSpeedHistory (snd (getNetworkSpeed fmt r3 n3 s))"
    using getNetworkSpeed_local [OF last2 hist2] by (simp_all add: s3)
qed

text \<open>What a call of \<open>cachedCall\<close> resolves to depends on the entry under its key only,
  and it leaves the entries under the other keys alone.\<close>

lemma cachedCall_local:
  "c key = c' key \<Longrightarrow>
     fst (cachedCall Date_now key fn ttlMs (c, w)) = fst (cachedCall Date_now key fn ttlMs (c', w))"
  by (simp add: cachedCall_def Let_def split: option.splits prod.splits sum.splits)

lemma cachedCall_other_key:
  "k \<noteq> key \<Longrightarrow> fst (snd (cachedCall Date_now key fn ttlMs (c, w))) k = c k"
  by (simp add: cachedCall_def Let_def split: option.splits prod.splits sum.splits)

lemma getFileSystemInfo_local:
  assumes "cache s ''fsSize'' = cache t ''fsSize''"
  shows "fst (getFileSystemInfo fmt now r s) = fst (getFileSystemInfo fmt now r t)"
  using assms cachedCall_local [where c = "cache s" and c' = "cache t" and key = "''fsSize''"
      and Date_now = "\<lambda>w. now" and fn = "\<lambda>w. (map_sum id FsSizeData r, w)"
      and ttlMs = 10000 and w = "()"]
  by (auto simp: getFileSystemInfo_def split: prod.splits sum.splits cache_data.splits option.splits)

lemma getFileSystemInfo_other_key:
  assumes "k \<noteq> ''fsSize''"
  shows "cache (snd (getFileSystemInfo fmt now r s)) k = cache s k"
  using assms cachedCall_other_key [where k = k and key = "''fsSize''" and c = "cache s"
      and Date_now = "\<lambda>w. now" and fn = "\<lambda>w. (map_sum id FsSizeData r, w)"
      and ttlMs = 10000 and w = "()"]
  by (auto simp: getFileSystemInfo_def split: prod.splits sum.splits cache_data.splits option.splits)

lemma cached_battery_local:
  assumes "cache s ''battery'' = cache t ''battery''"
  shows "fst (cached_battery now r s) = fst (cached_battery now r t)"
  using assms cachedCall_local [where c = "cache s" and c' = "cache t" and key = "''battery''"
      and Date_now = "\<lambda>w. now" and fn = "\<lambda>w. (Inr (BatteryData (getBatteryStatus r)), w)"
      and ttlMs = 10000 and w = "()"]
  by (auto simp: cached_battery_def split: prod.splits sum.splits cache_data.splits option.splits)

lemma cached_battery_other_key:
  assumes "k \<noteq> ''battery''"
  shows "cache (snd (cached_battery now r s)) k = cache s k"
  using assms cachedCall_other_key [where k = k and key = "''battery''" and c = "cache s"
      and Date_now = "\<lambda>w. now" and fn = "\<lambda>w. (Inr (BatteryData (getBatteryStatus r)), w)"
      and ttlMs = 10000 and w = "()"]
  by (auto simp: cached_battery_def split: prod.splits sum.splits cache_data.splits option.splits)

lemma getDiskLayout_local:
  assumes "cache s ''diskLayout'' = cache t ''diskLayout''"
  shows "fst (getDiskLayout fmt now r s) = fst (getDiskLayout fmt now r t)"
  using assms cachedCall_local [where c = "cache s" and c' = "cache t" and key = "''diskLayout''"
      and Date_now = "\<lambda>w. now" and fn = "\<lambda>w. (map_sum id DiskLayoutData r, w)"
      and ttlMs = 30000 and w = "()"]
  by (auto simp: getDiskLayout_def split: prod.splits sum.splits cache_data.splits option.splits)

text \<open>
  A pass that resolves, in terms of what it read and the state it started from: the
  calls that \<open>Promise.all\<close> awaits bare have resolved, each field of the snapshot is what
  its adapter returns, and the state is the one the adapters left with one sample pushed
  on the CPU and on the memory timeline.
\<close>

lemma getStats_Inr:
  assumes pass: "getStats fmt e s = (Inr snap, s')"
  shows "\<exists>memRes cpuRes infoRes.
      memory_info e = Inr memRes \<and> cpu_usage e = Inr cpuRes \<and> cpu_info e = Inr infoRes
    \<and> fst (getNetworkStats fmt (statsAsync_interfaces e) (iso_networkStats e) s) = Inr (network snap)
    \<and> getProcessCount (process_stats e) = Inr (process_count snap)
    \<and> fst (cached_battery (now_battery e) (si_battery e) s) = Inr (battery_status snap)
    \<and> file_system_info snap = fst (getFileSystemInfo fmt (now_fsSize e) (si_fsSize e) s)
    \<and> disk_layout snap = fst (getDiskLayout fmt (now_diskLayout e) (si_diskLayout e) s)
    \<and> network_speed snap = fst (getNetworkSpeed fmt (statsAsync_speed e) (now_speed e) s)
    \<and> temperature snap = getTemperatureInfo (si_cpuTemperature e)
    \<and> disk snap = getDiskStats fmt ''/'' (disk_usageByMountPoint e)
    \<and> cpu snap = toFixed 2 (case cpuRes of Success u \<Rightarrow> u | Failure \<Rightarrow> 0) @ ''%''
    \<and> ram snap = (case memRes of
                    Success m \<Rightarrow> toFixed 2 (mem_usagePercentage m)
                  | Failure \<Rightarrow> ''0.00'') @ ''%''
    \<and> ram_text snap =
        fmt (case memRes of Success m \<Rightarrow> mem_used m | Failure \<Rightarrow> 0) @ '' / '' @
        fmt (case memRes of Success m \<Rightarrow> mem_total m | Failure \<Rightarrow> 0) @ '' ('' @
        (case memRes of
           Success m \<Rightarrow> toFixed 2 (mem_usagePercentage m)
         | Failure \<Rightarrow> ''0.00'') @ ''%)''
    \<and> cpuHistory s' = push_shift historyLimit (cpuHistory s)
          \<lparr>cs_timestamp = iso_getStats e,
           cs_usage = (case cpuRes of Success u \<Rightarrow> u | Failure \<Rightarrow> 0)\<rparr>
    \<and> memoryHistory s' = push_shift historyLimit (memoryHistory s)
          \<lparr>ms_timestamp = iso_getStats e,
           ms_usage = parseFloat (case memRes of
                                    Success m \<Rightarrow> toFixed 2 (mem_usagePercentage m)
                                  | Failure \<Rightarrow> ''0.00''),
           ms_used = (case memRes of Success m \<Rightarrow> mem_used m | Failure \<Rightarrow> 0),
           ms_total = (case memRes of Success m \<Rightarrow> mem_total m | Failure \<Rightarrow> 0)\<rparr>
    \<and> networkHistory s' =
        networkHistory (snd (getNetworkStats fmt (statsAsync_interfaces e) (iso_networkStats e) s))
    \<and> lastNetworkStats s' =
        lastNetworkStats (snd (getNetworkSpeed fmt (statsAsync_speed e) (now_speed e) s))
    \<and> networkSpeedHistory s' =
        networkSpeedHistory (snd (getNetworkSpeed fmt (statsAsync_speed e) (now_speed e) s))
    \<and> cpu_history snap = cpuHistory s' \<and> network_history snap = networkHistory s'"
proof -
  from pass obtain nsP s1 fsi s2 spd s3 batP s4 dl s5 memRes cpuRes infoRes nets pc b where
    ns: "getNetworkStats fmt (statsAsync_interfaces e) (iso_networkStats e) s = (nsP, s1)"
    and fs: "getFileSystemInfo fmt (now_fsSize e) (si_fsSize e) s1 = (fsi, s2)"
    and sp: "getNetworkSpeed fmt (statsAsync_speed e) (now_speed e) s2 = (spd, s3)"
    and bat: "cached_battery (now_battery e) (si_battery e) s3 = (batP, s4)"
    and dk: "getDiskLayout fmt (now_diskLayout e) (si_diskLayout e) s4 = (dl, s5)"
    and all: "Promise_all (memory_info e) (cpu_usage e) (cpu_info e) nsP
       (getProcessCount (process_stats e)) batP = Inr (memRes, cpuRes, infoRes, nets, pc, b)"
    by (rule getStats_InrE)
  note frame = adapters_frame [OF ns fs sp bat dk]
  from all have settled: "memory_info e = Inr memRes" "cpu_usage e = Inr cpuRes"
    "cpu_info e = Inr infoRes" "nsP = Inr nets" "getProcessCount (process_stats e) = Inr pc"
    "batP = Inr b"
    by (simp_all add: Promise_all_Inr)
  have s1: "s1 = snd (getNetworkStats fmt (statsAsync_interfaces e) (iso_networkStats e) s)"
    and s2: "s2 = snd (getFileSystemInfo fmt (now_fsSize e) (si_fsSize e) s1)"
    and s3: "s3 = snd (getNetworkSpeed fmt (statsAsync_speed e) (now_speed e) s2)"
    and s4: "s4 = snd (cached_battery (now_battery e) (si_battery e) s3)"
    by (simp_all add: ns fs sp bat)
  have c1: "cache s1 = cache s"
    by (simp add: s1 getNetworkStats_frame)
  have c3: "cache s3 ''battery'' = cache s ''battery''"
    by (simp add: s3 s2 getNetworkSpeed_frame getFileSystemInfo_other_key c1)
  have c4: "cache s4 ''diskLayout'' = cache s ''diskLayout''"
    by (simp add: s4 s3 s2 cached_battery_other_key getNetworkSpeed_frame
        getFileSystemInfo_other_key c1)
  have last2: "lastNetworkStats s2 = lastNetworkStats s"
    and hist2: "networkSpeedHistory s2 = networkSpeedHistory s"
    by (simp_all add: s1 s2 getNetworkStats_frame getFileSystemInfo_frame)
  have nets: "fst (getNetworkStats fmt (statsAsync_interfaces e) (iso_networkStats e) s) = Inr nets"
    by (simp add: ns settled)
  have fsi: "fsi = fst (getFileSystemInfo fmt (now_fsSize e) (si_fsSize e) s)"
    using getFileSystemInfo_local [of s1 s fmt "now_fsSize e" "si_fsSize e"] fs by (simp add: c1)
  have spd: "spd = fst (getNetworkSpeed fmt (statsAsync_speed e) (now_speed e) s)"
    using getNetworkSpeed_local(1) [OF last2 hist2, of fmt "statsAsync_speed e" "now_speed e"] sp
    by simp
  have b: "fst (cached_battery (now_battery e) (si_battery e) s) = Inr b"
    using cached_battery_local [OF c3, of "now_battery e" "si_battery e"] bat settled by simp
  have dl: "dl = fst (getDiskLayout fmt (now_diskLayout e) (si_diskLayout e) s)"
    using getDiskLayout_local [OF c4, of fmt "now_diskLayout e" "si_diskLayout e"] dk by simp
  from getStats_resolved [OF ns fs sp bat dk all] pass
  have s': "s' = s5\<lparr>cpuHistory := push_shift historyLimit (cpuHistory s5)
            \<lparr>cs_timestamp = iso_getStats e,
             cs_usage = (case cpuRes of Success u \<Rightarrow> u | Failure \<Rightarrow> 0)\<rparr>,
         memoryHistory := push_shift historyLimit (memoryHistory s5)
            \<lparr>ms_timestamp = iso_getStats e,
             ms_usage = parseFloat (case memRes of
                                      Success m \<Rightarrow> toFixed 2 (mem_usagePercentage m)
                                    | Failure \<Rightarrow> ''0.00''),
             ms_used = (case memRes of Success m \<Rightarrow> mem_used m | Failure \<Rightarrow> 0),
             ms_total = (case memRes of Success m \<Rightarrow> mem_total m | Failure \<Rightarrow> 0)\<rparr>\<rparr>"
    and fields: "ram snap = (case memRes of
                     Success m \<Rightarrow> toFixed 2 (mem_usagePercentage m)
                   | Failure \<Rightarrow> ''0.00'') @ ''%''"
      "ram_text snap =
         fmt (case memRes of Success m \<Rightarrow> mem_used m | Failure \<Rightarrow> 0) @ '' / '' @
         fmt (case memRes of Success m \<Rightarrow> mem_total m | Failure \<Rightarrow> 0) @ '' ('' @
         (case memRes of
            Success m \<Rightarrow> toFixed 2 (mem_usagePercentage m)
          | Failure \<Rightarrow> ''0.00'') @ ''%)''"
      "cpu snap = toFixed 2 (case cpuRes of Success u \<Rightarrow> u | Failure \<Rightarrow> 0) @ ''%''"
      "temperature snap = getTemperatureInfo (si_cpuTemperature e)"
      "disk snap = getDiskStats fmt ''/'' (disk_usageByMountPoint e)"
      "network snap = nets" "process_count snap = pc" "file_system_info snap = fsi"
      "network_speed snap = spd" "battery_status snap = b" "disk_layout snap = dl"
      "network_history snap = networkHistory s5"
      "cpu_history snap = push_shift historyLimit (cpuHistory s5)
              \<lparr>cs_timestamp = iso_getStats e,
               cs_usage = (case cpuRes of Success u \<Rightarrow> u | Failure \<Rightarrow> 0)\<rparr>"
    by auto
  have state: "cpuHistory s' = push_shift historyLimit (cpuHistory s)
          \<lparr>cs_timestamp = iso_getStats e,
           cs_usage = (case cpuRes of Success u \<Rightarrow> u | Failure \<Rightarrow> 0)\<rparr>"
    "memoryHistory s' = push_shift historyLimit (memoryHistory s)
          \<lparr>ms_timestamp = iso_getStats e,
           ms_usage = parseFloat (case memRes of
                                    Success m \<Rightarrow> toFixed 2 (mem_usagePercentage m)
                                  | Failure \<Rightarrow> ''0.00''),
           ms_used = (case memRes of Success m \<Rightarrow> mem_used m | Failure \<Rightarrow> 0),
           ms_total = (case memRes of Success m \<Rightarrow> mem_total m | Failure \<Rightarrow> 0)\<rparr>"
    "networkHistory s' =
        networkHistory (snd (getNetworkStats fmt (statsAsync_interfaces e) (iso_networkStats e) s))"
    "lastNetworkStats s' =
        lastNetworkStats (snd (getNetworkSpeed fmt (statsAsync_speed e) (now_speed e) s))"
    "networkSpeedHistory s' =
        networkSpeedHistory (snd (getNetworkSpeed fmt (statsAsync_speed e) (now_speed e) s))"
    by (simp_all add: s' frame)
  have views: "cpu_history snap = cpuHistory s'" "network_history snap = networkHistory s'"
    by (simp_all add: fields s')
  show ?thesis
    using settled(1-3,5) nets b fsi dl spd fields(1-11) state views by simp
qed

text \<open>When the five calls that are awaited bare resolve, so does the pass.\<close>

lemma getStats_resolves:
  assumes "memory_info e = Inr memRes" and "cpu_usage e = Inr cpuRes"
      and "cpu_info e = Inr infoRes" and "statsAsync_interfaces e = Inr netRes"
      and "process_stats e = Inr procRes"
  shows "\<exists>snap s'. getStats fmt e s = (Inr snap, s')"
proof -
  obtain nsP s1 where ns:
    "getNetworkStats fmt (statsAsync_interfaces e) (iso_networkStats e) s = (nsP, s1)"
    by (cases "getNetworkStats fmt (statsAsync_interfaces e) (iso_networkStats e) s")
  obtain fsi s2 where fs: "getFileSystemInfo fmt (now_fsSize e) (si_fsSize e) s1 = (fsi, s2)"
    by (cases "getFileSystemInfo fmt (now_fsSize e) (si_fsSize e) s1")
  obtain spd s3 where sp: "getNetworkSpeed fmt (statsAsync_speed e) (now_speed e) s2 = (spd, s3)"
    by (cases "getNetworkSpeed fmt (statsAsync_speed e) (now_speed e) s2")
  obtain batP s4 where bat: "cached_battery (now_battery e) (si_battery e) s3 = (batP, s4)"
    by (cases "cached_battery (now_battery e) (si_battery e) s3")
  obtain dl s5 where dk: "getDiskLayout fmt (now_diskLayout e) (si_diskLayout e) s4 = (dl, s5)"
    by (cases "getDiskLayout fmt (now_diskLayout e) (si_diskLayout e) s4")
  obtain nets where nets: "nsP = Inr nets"
    using getNetworkStats_result(3) [of fmt netRes "iso_networkStats e" s] ns assms(4) by auto
  obtain b where b: "batP = Inr b"
    using cached_battery_resolves [of "now_battery e" "si_battery e" s3] bat by auto
  obtain pc where pc: "getProcessCount (process_stats e) = Inr pc"
    by (cases procRes) (simp_all add: assms(5) getProcessCount_def)
  have "Promise_all (memory_info e) (cpu_usage e) (cpu_info e) nsP
       (getProcessCount (process_stats e)) batP = Inr (memRes, cpuRes, infoRes, nets, pc, b)"
    by (simp add: Promise_all_Inr assms(1-3) nets b pc)
  from getStats_resolved [OF ns fs sp bat dk this] show ?thesis by blast
qed

text \<open>What the adapters return when their source has failed.\<close>

lemma getNetworkStats_failed:
  "getNetworkStats fmt (Inr Failure) t s = (Inr [], s)"
  "getNetworkStats fmt (Inl err) t s = (Inl err, s)"
  by (simp_all add: getNetworkStats_def)

lemma getNetworkSpeed_failed:
  "getNetworkSpeed fmt (Inl err) now s = (zero_speed, s)"
  "getNetworkSpeed fmt (Inr Failure) now s = (zero_speed, s)"
  by (simp_all add: getNetworkSpeed_def)

lemma getFileSystemInfo_failed:
  assumes "\<not> is_fresh (cache s) ''fsSize'' now 10000"
  shows "getFileSystemInfo fmt now (Inl err) s = ([], s)"
  using cachedCall_miss [where Date_now = "\<lambda>w. now" and w = "()", OF assms,
      of "\<lambda>w. (map_sum id FsSizeData (Inl err), w)"]
  by (simp add: getFileSystemInfo_def)

lemma getDiskLayout_failed:
  assumes "\<not> is_fresh (cache s) ''diskLayout'' now 30000"
  shows "getDiskLayout fmt now (Inl err) s = ([], s)"
  using cachedCall_miss [where Date_now = "\<lambda>w. now" and w = "()", OF assms,
      of "\<lambda>w. (map_sum id DiskLayoutData (Inl err), w)"]
  by (simp add: getDiskLayout_def)

lemma cached_battery_failed:
  assumes "\<not> is_fresh (cache s) ''battery'' now 10000"
  shows "cached_battery now (Inl err) s =
           (Inr None, s\<lparr>cache := (cache s)(''battery'' \<mapsto> \<lparr>data = BatteryData None, ts = now\<rparr>)\<rparr>)"
  using cachedCall_miss [where Date_now = "\<lambda>w. now" and w = "()", OF assms,
      of "\<lambda>w. (Inr (BatteryData (getBatteryStatus (Inl err))), w)"]
  by (simp add: cached_battery_def getBatteryStatus_def)

lemma toFixed_2_0: "toFixed 2 0 = ''0.00''"
  by (simp add: toFixed_def digits.simps)



text \<open>
  Defaults. In a pass that resolves, a source that failed the way its adapter handles
  shows as the default of its field. For the three cached sources the source is only
  asked when the entry under its key is not fresh.
\<close>

lemma getStats_defaults:
  assumes pass: "getStats fmt e s = (Inr snap, s')"
  shows "(statsAsync_interfaces e = Inr Failure \<longrightarrow> network snap = [])
       \<and> (process_stats e = Inr Failure \<longrightarrow>
            process_count snap = \<lparr>pc_all = 0, pc_running = 0, pc_blocked = 0, pc_sleeping = 0\<rparr>)
       \<and> (isl (si_cpuTemperature e) \<longrightarrow> temperature snap = None)
       \<and> (isl (disk_usageByMountPoint e) \<or> disk_usageByMountPoint e = Inr Failure \<longrightarrow>
            disk snap = None)
       \<and> (isl (statsAsync_speed e) \<or> statsAsync_speed e = Inr Failure \<longrightarrow>
            network_speed snap = zero_speed)
       \<and> (isl (si_fsSize e) \<and> \<not> is_fresh (cache s) ''fsSize'' (now_fsSize e) 10000 \<longrightarrow>
            file_system_info snap = [])
       \<and> (isl (si_diskLayout e) \<and> \<not> is_fresh (cache s) ''diskLayout'' (now_diskLayout e) 30000 \<longrightarrow>
            disk_layout snap = [])
       \<and> (isl (si_battery e) \<and> \<not> is_fresh (cache s) ''battery'' (now_battery e) 10000 \<longrightarrow>
            battery_status snap = None)
       \<and> (memory_info e = Inr Failure \<longrightarrow> ram snap = ''0.00%'')
       \<and> (cpu_usage e = Inr Failure \<longrightarrow> cpu snap = ''0.00%'')"
proof -
  from getStats_Inr [OF pass] obtain memRes cpuRes where
    settled: "memory_info e = Inr memRes" "cpu_usage e = Inr cpuRes"
    and net: "fst (getNetworkStats fmt (statsAsync_interfaces e) (iso_networkStats e) s)
        = Inr (network snap)"
    and pc: "getProcessCount (process_stats e) = Inr (process_count snap)"
    and bat: "fst (cached_battery (now_battery e) (si_battery e) s) = Inr (battery_status snap)"
    and fsi: "file_system_info snap = fst (getFileSystemInfo fmt (now_fsSize e) (si_fsSize e) s)"
    and dl: "disk_layout snap = fst (getDiskLayout fmt (now_diskLayout e) (si_diskLayout e) s)"
    and spd: "network_speed snap = fst (getNetworkSpeed fmt (statsAsync_speed e) (now_speed e) s)"
    and temp: "temperature snap = getTemperatureInfo (si_cpuTemperature e)"
    and dsk: "disk snap = getDiskStats fmt ''/'' (disk_usageByMountPoint e)"
    and cpu: "cpu snap = toFixed 2 (case cpuRes of Success u \<Rightarrow> u | Failure \<Rightarrow> 0) @ ''%''"
    and ram: "ram snap = (case memRes of
                    Success m \<Rightarrow> toFixed 2 (mem_usagePercentage m)
                  | Failure \<Rightarrow> ''0.00'') @ ''%''"
    by blast
  have "network snap = []" if "statsAsync_interfaces e = Inr Failure"
    using net that by (simp add: getNetworkStats_failed)
  moreover have "process_count snap = \<lparr>pc_all = 0, pc_running = 0, pc_blocked = 0, pc_sleeping = 0\<rparr>"
    if "process_stats e = Inr Failure"
    using pc that by (simp add: getProcessCount_def)
  moreover have "temperature snap = None" if "isl (si_cpuTemperature e)"
    using that by (cases "si_cpuTemperature e") (simp_all add: temp getTemperatureInfo_def)
  moreover have "disk snap = None"
    if "isl (disk_usageByMountPoint e) \<or> disk_usageByMountPoint e = Inr Failure"
    using that by (cases "disk_usageByMountPoint e") (auto simp: dsk getDiskStats_def)
  moreover have "network_speed snap = zero_speed"
    if "isl (statsAsync_speed e) \<or> statsAsync_speed e = Inr Failure"
    using that by (cases "statsAsync_speed e") (auto simp: spd getNetworkSpeed_failed)
  moreover have "file_system_info snap = []"
    if "isl (si_fsSize e)" and "\<not> is_fresh (cache s) ''fsSize'' (now_fsSize e) 10000"
    using that by (cases "si_fsSize e") (simp_all add: fsi getFileSystemInfo_failed)
  moreover have "disk_layout snap = []"
    if "isl (si_diskLayout e)" and "\<not> is_fresh (cache s) ''diskLayout'' (now_diskLayout e) 30000"
    using that by (cases "si_diskLayout e") (simp_all add: dl getDiskLayout_failed)
  moreover have "battery_status snap = None"
    if "isl (si_battery e)" and "\<not> is_fresh (cache s) ''battery'' (now_battery e) 10000"
    using that bat by (cases "si_battery e") (simp_all add: cached_battery_failed)
  moreover have "ram snap = ''0.00%''" if "memory_info e = Inr Failure"
    using that settled by (simp add: ram)
  moreover have "cpu snap = ''0.00%''" if "cpu_usage e = Inr Failure"
    using that settled by (simp add: cpu toFixed_2_0)
  ultimately show ?thesis by blast
qed

text \<open>A rejection of the call that \<open>getNetworkStats\<close> awaits is the rejection of the pass.\<close>

lemma getStats_statsAsync_rejected:
  assumes "memory_info e = Inr memRes" and "cpu_usage e = Inr cpuRes"
      and "cpu_info e = Inr infoRes" and "statsAsync_interfaces e = Inl err"
  shows "fst (getStats fmt e s) = Inl err"
proof -
  have ns: "getNetworkStats fmt (statsAsync_interfaces e) (iso_networkStats e) s = (Inl err, s)"
    by (simp add: assms getNetworkStats_failed)
  obtain fsi s2 where fs: "getFileSystemInfo fmt (now_fsSize e) (si_fsSize e) s = (fsi, s2)"
    by (cases "getFileSystemInfo fmt (now_fsSize e) (si_fsSize e) s")
  obtain spd s3 where sp: "getNetworkSpeed fmt (statsAsync_speed e) (now_speed e) s2 = (spd, s3)"
    by (cases "getNetworkSpeed fmt (statsAsync_speed e) (now_speed e) s2")
  obtain batP s4 where bat: "cached_battery (now_battery e) (si_battery e) s3 = (batP, s4)"
    by (cases "cached_battery (now_battery e) (si_battery e) s3")
  obtain dl s5 where dk: "getDiskLayout fmt (now_diskLayout e) (si_diskLayout e) s4 = (dl, s5)"
    by (cases "getDiskLayout fmt (now_diskLayout e) (si_diskLayout e) s4")
  have "Promise_all (memory_info e) (cpu_usage e) (cpu_info e) (Inl err)
      (getProcessCount (process_stats e)) batP = Inl err"
    by (simp add: Promise_all_def assms)
  from getStats_rejected [OF ns fs sp bat dk this] show ?thesis by simp
qed

lemma env_down_simps:
  "memory_info env_down = Inr Failure"
  "cpu_usage env_down = Inr Failure"
  "cpu_info env_down = Inr Failure"
  "statsAsync_interfaces env_down = Inr Failure"
  "statsAsync_speed env_down = Inr Failure"
  "process_stats env_down = Inr Failure"
  "now_speed env_down = 1200"
  "iso_networkStats env_down = ''2026-01-01T00:00:01.200Z''"
  "iso_getStats env_down = ''2026-01-01T00:00:02.500Z''"
  by (simp_all add: env_down_def)

lemma initial_simps:
  "cpuHistory initial = []" "memoryHistory initial = []" "networkHistory initial = []"
  "cache initial = Map.empty" "lastNetworkStats initial = None"
  "networkSpeedHistory initial = []"
  by (simp_all add: initial_def)


lemma env_rejected_simps:
  "memory_info env_rejected = Inr Failure"
  "cpu_usage env_rejected = Inr Failure"
  "cpu_info env_rejected = Inr Failure"
  "statsAsync_interfaces env_rejected = Inl (Error ''statsAsync failed'')"
  "statsAsync_speed env_rejected = Inl (Error ''statsAsync failed'')"
  "now_speed env_rejected = 1200"
  by (simp_all add: env_rejected_def env_down_simps)

text \<open>
  C1. The pass does not resolve for every outcome of its sources. \<open>getNetworkStats\<close>
  awaits \<open>osutils.network.statsAsync()\<close> outside any \<open>try\<close>: when that call rejects,
  \<open>getStats\<close> rejects with the same error and returns no snapshot, while
  \<open>getNetworkSpeed\<close>, which awaits the same call inside \<open>try\<close>, returns its zero record.
  (When the sources fail the way their adapters handle, the pass resolves and the fields
  take their defaults: \<open>getStats_resolves\<close> and \<open>getStats_defaults\<close> above.)
\<close>

theorem getStats_rejects:
  "fst (getStats show_bytes env_rejected initial) = Inl (Error ''statsAsync failed'')
   \<and> fst (getNetworkSpeed show_bytes (statsAsync_speed env_rejected) (now_speed env_rejected)
          initial) = zero_speed"
  using getStats_statsAsync_rejected [of env_rejected Failure Failure Failure
      "Error ''statsAsync failed''" show_bytes initial]
  by (simp add: env_rejected_simps getNetworkSpeed_failed)








text \<open>
  The CPU timeline over passes. When in every pass the calls awaited bare resolve, the
  timeline after the passes, started from the initial state, holds the samples of the
  last 20 passes, oldest first.
\<close>


lemma getStats_cpuHistory:
  assumes "awaited_bare_resolve e"
  shows "cpuHistory (snd (getStats fmt e s)) = push_shift historyLimit (cpuHistory s) (cpu_sample_of e)"
proof -
  from assms have settled:
    "memory_info e = Inr (projr (memory_info e))" "cpu_usage e = Inr (projr (cpu_usage e))"
    "cpu_info e = Inr (projr (cpu_info e))"
    "statsAsync_interfaces e = Inr (projr (statsAsync_interfaces e))"
    "process_stats e = Inr (projr (process_stats e))"
    by (simp_all add: awaited_bare_resolve_def)
  from getStats_resolves [OF settled] obtain snap s' where
    pass: "getStats fmt e s = (Inr snap, s')" by blast
  from getStats_Inr [OF pass] obtain cpuRes where
    cpu: "cpu_usage e = Inr cpuRes"
    and "cpuHistory s' = push_shift historyLimit (cpuHistory s)
          \<lparr>cs_timestamp = iso_getStats e,
           cs_usage = (case cpuRes of Success u \<Rightarrow> u | Failure \<Rightarrow> 0)\<rparr>"
    by blast
  then have "cpuHistory s' = push_shift historyLimit (cpuHistory s) (cpu_sample_of e)"
    by (simp add: cpu_sample_of_def split: monitor_result.splits)
  then show ?thesis by (simp add: pass)
qed

lemma run_passes_cpuHistory:
  assumes "list_all awaited_bare_resolve es"
  shows "cpuHistory (run_passes fmt es s)
           = foldl (push_shift historyLimit) (cpuHistory s) (map cpu_sample_of es)"
  using assms
proof (induction es arbitrary: s)
  case Nil
  then show ?case by (simp add: run_passes_def)
next
  case (Cons e es)
  then have "cpuHistory (run_passes fmt es (snd (getStats fmt e s)))
      = foldl (push_shift historyLimit) (cpuHistory (snd (getStats fmt e s))) (map cpu_sample_of es)"
    by simp
  moreover have "run_passes fmt (e # es) s = run_passes fmt es (snd (getStats fmt e s))"
    by (simp add: run_passes_def)
  ultimately show ?case
    using Cons.prems by (simp add: getStats_cpuHistory)
qed

lemma cpuHistory_after_passes:
  assumes "list_all awaited_bare_resolve es"
  shows "cpuHistory (run_passes fmt es initial)
           = drop (length es - 20) (map cpu_sample_of es)"
  using run_passes_cpuHistory [OF assms, of fmt initial]
    foldl_push_shift [of "[]" historyLimit "map cpu_sample_of es"]
  by (simp add: initial_simps historyLimit_def)

end
